theory Spec2Isabelle
  imports Main
begin

section \<open>Results, errors and panics\<close>

text \<open>
  Every parser of \<^verbatim>\<open>jobspec/parse.go\<close> returns a Go \<^verbatim>\<open>error\<close>. An error is modelled by
  its message text. A run-time panic (an index out of range) is not an error value: it
  unwinds through every caller, so it is a second constructor that no prefixing touches.
  Texts that a library writes (hcl, mapstructure, strconv) are abbreviated.
\<close>

datatype error = Error string | Panic

definition bindE :: "error + 'a \<Rightarrow> ('a \<Rightarrow> error + 'b) \<Rightarrow> error + 'b" where
  "bindE x f = (case x of Inl e \<Rightarrow> Inl e | Inr v \<Rightarrow> f v)"

text \<open>\<^verbatim>\<open>multierror.Prefix(err, prefix)\<close> on an ordinary error: \<^verbatim>\<open>"prefix err"\<close>.\<close>

fun Prefix :: "error \<Rightarrow> string \<Rightarrow> error" where
  "Prefix (Error s) p = Error (p @ '' '' @ s)"
| "Prefix Panic p = Panic"

definition prefixE :: "string \<Rightarrow> error + 'a \<Rightarrow> error + 'a" where
  "prefixE p x = (case x of Inl e \<Rightarrow> Inl (Prefix e p) | Inr v \<Rightarrow> Inr v)"

section \<open>The generic configuration tree (package hcl/ast)\<close>

text \<open>
  The tokenizer's tree: an object item has a list of keys (the block kind followed by its
  labels) and a value; a value is an object (a list of items), a list or a literal.
  Literals are string, boolean and integer tokens; a number token is identified with its
  value. Floating-point tokens are outside the model.
\<close>

datatype literal = LString string | LBool bool | LNumber int

datatype node =
    ObjectType "(string list \<times> node) list"
  | ListType "node list"
  | LiteralType literal

type_synonym ObjectItem = "string list \<times> node"
type_synonym ObjectList = "ObjectItem list"

abbreviation Keys :: "ObjectItem \<Rightarrow> string list" where "Keys \<equiv> fst"
abbreviation Val :: "ObjectItem \<Rightarrow> node" where "Val \<equiv> snd"

text \<open>\<^verbatim>\<open>strings.ToLower\<close> and \<^verbatim>\<open>strings.EqualFold\<close>, on the ASCII letters.\<close>

definition toLowerChar :: "char \<Rightarrow> char" where
  "toLowerChar c =
     (case map_of (zip ''ABCDEFGHIJKLMNOPQRSTUVWXYZ'' ''abcdefghijklmnopqrstuvwxyz'') c of
        Some d \<Rightarrow> d | None \<Rightarrow> c)"

definition ToLower :: "string \<Rightarrow> string" where
  "ToLower s = map toLowerChar s"

definition EqualFold :: "string \<Rightarrow> string \<Rightarrow> bool" where
  "EqualFold s t = (ToLower s = ToLower t)"

text \<open>
  \<^verbatim>\<open>ObjectList.Filter(key)\<close>: the items whose first key is \<^verbatim>\<open>key\<close> (compared with
  \<^verbatim>\<open>EqualFold\<close>), each with that first key stripped. \<^verbatim>\<open>Children\<close> keeps the items that
  still have a key, \<^verbatim>\<open>Elem\<close> those that have none.
\<close>

fun Filter :: "ObjectList \<Rightarrow> string \<Rightarrow> ObjectList" where
  "Filter [] key = []"
| "Filter (item # rest) key =
     (case Keys item of
        [] \<Rightarrow> Filter rest key
      | k # ks \<Rightarrow>
          if k = key \<or> EqualFold k key then (ks, Val item) # Filter rest key
          else Filter rest key)"

definition Children :: "ObjectList \<Rightarrow> ObjectList" where
  "Children l = filter (\<lambda>item. Keys item \<noteq> []) l"

definition Elem :: "ObjectList \<Rightarrow> ObjectList" where
  "Elem l = filter (\<lambda>item. Keys item = []) l"

text \<open>
  Modelled from the spec: \<^verbatim>\<open>helper.CheckHCLKeys\<close> (package helper, not under src/).
  Section 4.1: given a block's actual key set and a declared whitelist, it fails with a
  schema error naming the first unrecognized key. The key of an item is its first key; a
  value that is not a block has no key set to check and is refused.
\<close>

fun CheckHCLKeys_list :: "ObjectList \<Rightarrow> string list \<Rightarrow> error + unit" where
  "CheckHCLKeys_list [] valid = Inr ()"
| "CheckHCLKeys_list (item # rest) valid =
     (case Keys item of
        [] \<Rightarrow> Inl Panic
      | key # ks \<Rightarrow>
          if key \<in> set valid then CheckHCLKeys_list rest valid
          else Inl (Error (''invalid key: '' @ key)))"

fun CheckHCLKeys :: "node \<Rightarrow> string list \<Rightarrow> error + unit" where
  "CheckHCLKeys (ObjectType l) valid = CheckHCLKeys_list l valid"
| "CheckHCLKeys n valid = Inl (Error ''cannot check HCL keys of this node type'')"

section \<open>Library functions taken as parameters\<close>

text \<open>
  A decoded value (\<^verbatim>\<open>interface{}\<close> as hcl produces it): a string, a boolean, an integer,
  a list, or the value built from block syntax. hcl decodes nested blocks into a slice of
  maps, one per block; the model keeps the blocks themselves (\<open>HBlocks\<close>), and an object
  inside a list as \<open>HObject\<close>: every parser that needs their contents decodes the block
  again, as the source does.
\<close>

datatype hval =
    HString string
  | HBool bool
  | HInt int
  | HList "hval list"
  | HObject node
  | HBlocks "node list"

type_synonym attrs = "string \<rightharpoonup> hval"

text \<open>
  What the source uses and neither src/ nor the spec defines is a parameter of the model:
  \<^item> \<open>ParseInt\<close>: \<^verbatim>\<open>strconv.ParseInt(s, 0, 64)\<close>;
  \<^item> \<open>ParseDuration\<close>: \<^verbatim>\<open>time.ParseDuration\<close>, in nanoseconds;
  \<^item> \<open>PortValueKey\<close>: the attribute that mapstructure reads into \<^verbatim>\<open>api.Port.Value\<close>;
  \<^item> \<open>WeakDecodeStruct\<close>: \<^verbatim>\<open>mapstructure\<close>'s weak decoding of an attribute map over a
    value of the named api struct, for the structs whose fields no claim reads. A
    decoded struct is a map from field names to values.
\<close>

record lib =
  ParseInt :: "string \<Rightarrow> int option"
  ParseDuration :: "string \<Rightarrow> int option"
  PortValueKey :: string
  WeakDecodeStruct :: "string \<Rightarrow> attrs \<Rightarrow> attrs \<Rightarrow> error + attrs"


section \<open>Decoding a block into an attribute map (hcl.DecodeObject)\<close>

definition int64 :: "int \<Rightarrow> bool" where
  "int64 i = (- (2 ^ 63) \<le> i \<and> i < 2 ^ 63)"

fun natToStr :: "nat \<Rightarrow> string" where
  "natToStr n =
     (if n < 10 then [''0123456789'' ! n]
      else natToStr (n div 10) @ [''0123456789'' ! (n mod 10)])"

declare natToStr.simps [simp del]

text \<open>\<^verbatim>\<open>strconv.FormatInt(i, 10)\<close>.\<close>

definition itoa :: "int \<Rightarrow> string" where
  "itoa i = (if i < 0 then ''-'' @ natToStr (nat (- i)) else natToStr (nat i))"

text \<open>\<^verbatim>\<open>strconv.ParseBool\<close>.\<close>

definition ParseBool :: "string \<Rightarrow> bool option" where
  "ParseBool s =
     (if s \<in> set [''1'', ''t'', ''T'', ''TRUE'', ''true'', ''True''] then Some True
      else if s \<in> set [''0'', ''f'', ''F'', ''FALSE'', ''false'', ''False''] then Some False
      else None)"

definition decodeLiteral :: "literal \<Rightarrow> error + hval" where
  "decodeLiteral l =
     (case l of
        LString s \<Rightarrow> Inr (HString s)
      | LBool b \<Rightarrow> Inr (HBool b)
      | LNumber n \<Rightarrow> if int64 n then Inr (HInt n) else Inl (Error ''hcl: value out of range''))"

text \<open>An element of a list: literals, nested lists, and objects (decoded by hcl to a map).\<close>

fun decodeElem :: "node \<Rightarrow> error + hval"
  and decodeElems :: "node list \<Rightarrow> error + hval list" where
  "decodeElem (LiteralType l) = decodeLiteral l"
| "decodeElem (ListType ns) =
     (case decodeElems ns of Inl e \<Rightarrow> Inl e | Inr vs \<Rightarrow> Inr (HList vs))"
| "decodeElem (ObjectType l) = Inr (HObject (ObjectType l))"
| "decodeElems [] = Inr []"
| "decodeElems (n # ns) =
     (case decodeElem n of
        Inl e \<Rightarrow> Inl e
      | Inr v \<Rightarrow> (case decodeElems ns of Inl e \<Rightarrow> Inl e | Inr vs \<Rightarrow> Inr (v # vs)))"

text \<open>The value of a key that the map does not hold yet.\<close>

fun decodeInterface :: "node \<Rightarrow> error + hval" where
  "decodeInterface (ObjectType l) = Inr (HBlocks [ObjectType l])"
| "decodeInterface n = decodeElem n"

definition isObject :: "node \<Rightarrow> bool" where
  "isObject n = (case n of ObjectType l \<Rightarrow> True | _ \<Rightarrow> False)"

text \<open>
  A key assigned again: hcl decodes the new value into the kind of the value the map
  already holds for the key. Strings take string and number tokens, booleans the tokens
  that read as true, false, 1 or 0, integers number tokens and strings that parse, lists
  and block values are appended to.
\<close>

definition redecode :: "lib \<Rightarrow> hval \<Rightarrow> node \<Rightarrow> error + hval" where
  "redecode L old n =
     (case old of
        HString s \<Rightarrow>
          (case n of
             LiteralType (LString t) \<Rightarrow> Inr (HString t)
           | LiteralType (LNumber i) \<Rightarrow> Inr (HString (itoa i))
           | _ \<Rightarrow> Inl (Error ''hcl: unknown type for string''))
      | HBool b \<Rightarrow>
          (case n of
             LiteralType (LBool c) \<Rightarrow> Inr (HBool c)
           | LiteralType (LString t) \<Rightarrow>
               if ToLower t \<in> set [''1'', ''true''] then Inr (HBool True)
               else if ToLower t \<in> set [''0'', ''false''] then Inr (HBool False)
               else Inl (Error ''hcl: unknown value for boolean'')
           | LiteralType (LNumber i) \<Rightarrow>
               if i = 1 then Inr (HBool True)
               else if i = 0 then Inr (HBool False)
               else Inl (Error ''hcl: unknown value for boolean'')
           | _ \<Rightarrow> Inl (Error ''hcl: unknown type for boolean''))
      | HInt i \<Rightarrow>
          (case n of
             LiteralType (LNumber j) \<Rightarrow>
               if int64 j then Inr (HInt j) else Inl (Error ''hcl: value out of range'')
           | LiteralType (LString t) \<Rightarrow>
               (case ParseInt L t of
                  Some j \<Rightarrow> Inr (HInt j)
                | None \<Rightarrow> Inl (Error ''hcl: invalid syntax for int''))
           | _ \<Rightarrow> Inl (Error ''hcl: unknown type for int''))
      | HList vs \<Rightarrow>
          (case n of
             ListType ns \<Rightarrow>
               (case decodeElems ns of Inl e \<Rightarrow> Inl e | Inr ws \<Rightarrow> Inr (HList (vs @ ws)))
           | ObjectType l \<Rightarrow> Inr (HList (vs @ [HObject (ObjectType l)]))
           | _ \<Rightarrow> Inl (Error ''hcl: unknown slice type''))
      | HObject m \<Rightarrow> Inl (Error ''hcl: not an object type for map'')
      | HBlocks bs \<Rightarrow>
          (case n of
             ObjectType l \<Rightarrow> Inr (HBlocks (bs @ [ObjectType l]))
           | ListType ns \<Rightarrow>
               if list_all isObject ns then Inr (HBlocks (bs @ ns))
               else Inl (Error ''hcl: not an object type for map'')
           | _ \<Rightarrow> Inl (Error ''hcl: unknown slice type'')))"

text \<open>
  An item with labels (more than one key): its value is the list of all the items of the
  block under the same first key, one block each.
\<close>

definition blockNodes :: "ObjectList \<Rightarrow> node list" where
  "blockNodes l = map (\<lambda>item. if Keys item = [] then Val item else ObjectType [item]) l"

definition redecodeBlocks :: "hval option \<Rightarrow> node list \<Rightarrow> error + hval" where
  "redecodeBlocks old ns =
     (case old of
        None \<Rightarrow> Inr (HBlocks ns)
      | Some (HBlocks bs) \<Rightarrow> Inr (HBlocks (bs @ ns))
      | Some v \<Rightarrow> Inl (Error ''hcl: unknown type for a block''))"

fun decodeMap :: "lib \<Rightarrow> ObjectList \<Rightarrow> ObjectList \<Rightarrow> string list \<Rightarrow> attrs \<Rightarrow> error + attrs" where
  "decodeMap L n [] done m = Inr m"
| "decodeMap L n (item # rest) done m =
     (case Keys item of
        [] \<Rightarrow> Inl (Error ''hcl: map must have string keys'')
      | keyStr # ks \<Rightarrow>
          if keyStr \<in> set done then decodeMap L n rest done m
          else if ks \<noteq> [] then
            (case redecodeBlocks (m keyStr) (blockNodes (Filter n keyStr)) of
               Inl e \<Rightarrow> Inl e
             | Inr v \<Rightarrow> decodeMap L n rest (keyStr # done) (m(keyStr \<mapsto> v)))
          else
            (case (case m keyStr of
                     None \<Rightarrow> decodeInterface (Val item)
                   | Some old \<Rightarrow> redecode L old (Val item)) of
               Inl e \<Rightarrow> Inl e
             | Inr v \<Rightarrow> decodeMap L n rest done (m(keyStr \<mapsto> v))))"

fun DecodeObject :: "lib \<Rightarrow> node \<Rightarrow> error + attrs" where
  "DecodeObject L (ObjectType l) = decodeMap L l l [] Map.empty"
| "DecodeObject L n = Inl (Error ''hcl: not an object type for map'')"

section \<open>Weak decoding of scalars (mapstructure with WeaklyTypedInput)\<close>

definition weakString :: "hval \<Rightarrow> error + string" where
  "weakString v =
     (case v of
        HString s \<Rightarrow> Inr s
      | HBool b \<Rightarrow> Inr (if b then ''1'' else ''0'')
      | HInt i \<Rightarrow> Inr (itoa i)
      | _ \<Rightarrow> Inl (Error ''mapstructure: expected type string''))"

definition weakBool :: "hval \<Rightarrow> error + bool" where
  "weakBool v =
     (case v of
        HBool b \<Rightarrow> Inr b
      | HInt i \<Rightarrow> Inr (i \<noteq> 0)
      | HString s \<Rightarrow>
          (case ParseBool s of
             Some b \<Rightarrow> Inr b
           | None \<Rightarrow> if s = [] then Inr False else Inl (Error ''mapstructure: cannot parse as bool''))
      | _ \<Rightarrow> Inl (Error ''mapstructure: expected type bool''))"

definition weakInt :: "lib \<Rightarrow> hval \<Rightarrow> error + int" where
  "weakInt L v =
     (case v of
        HInt i \<Rightarrow> Inr i
      | HBool b \<Rightarrow> Inr (if b then 1 else 0)
      | HString s \<Rightarrow>
          (case ParseInt L s of
             Some i \<Rightarrow> Inr i
           | None \<Rightarrow> Inl (Error ''mapstructure: cannot parse as int''))
      | _ \<Rightarrow> Inl (Error ''mapstructure: expected type int''))"

text \<open>A duration field, through \<^verbatim>\<open>StringToTimeDurationHookFunc\<close>: a string is parsed.\<close>

definition weakDuration :: "lib \<Rightarrow> hval \<Rightarrow> error + int" where
  "weakDuration L v =
     (case v of
        HString s \<Rightarrow>
          (case ParseDuration L s of
             Some d \<Rightarrow> Inr d
           | None \<Rightarrow> Inl (Error ''time: invalid duration''))
      | _ \<Rightarrow> weakInt L v)"

fun weakStringList :: "hval list \<Rightarrow> error + string list" where
  "weakStringList [] = Inr []"
| "weakStringList (v # vs) =
     (case weakString v of
        Inl e \<Rightarrow> Inl e
      | Inr s \<Rightarrow> (case weakStringList vs of Inl e \<Rightarrow> Inl e | Inr ss \<Rightarrow> Inr (s # ss)))"

text \<open>A \<^verbatim>\<open>[]string\<close> field: a list element by element, a single value as a one-element list.\<close>

definition weakStrings :: "hval \<Rightarrow> error + string list" where
  "weakStrings v = (case v of HList vs \<Rightarrow> weakStringList vs | _ \<Rightarrow> weakStringList [v])"

text \<open>
  A field of a struct: mapstructure leaves the field as it is when the map has no value
  under the field's key, and decodes the value otherwise.
\<close>

definition field :: "attrs \<Rightarrow> string \<Rightarrow> (hval \<Rightarrow> error + 'a) \<Rightarrow> 'a \<Rightarrow> error + 'a" where
  "field m key dec cur = (case m key of None \<Rightarrow> Inr cur | Some v \<Rightarrow> dec v)"

definition fieldPtr :: "attrs \<Rightarrow> string \<Rightarrow> (hval \<Rightarrow> error + 'a) \<Rightarrow> 'a option \<Rightarrow> error + 'a option" where
  "fieldPtr m key dec cur =
     (case m key of
        None \<Rightarrow> Inr cur
      | Some v \<Rightarrow> (case dec v of Inl e \<Rightarrow> Inl e | Inr x \<Rightarrow> Inr (Some x)))"

section \<open>Constraints and affinities\<close>

text \<open>
  \<^verbatim>\<open>api.Constraint\<close> and \<^verbatim>\<open>api.Affinity\<close>: the fields are those that the parsers assign in
  the attribute map (\<^verbatim>\<open>LTarget\<close>, \<^verbatim>\<open>RTarget\<close>, \<^verbatim>\<open>Operand\<close>), and the affinity's weight, an
  8-bit signed integer.
\<close>

record Constraint =
  LTarget :: string
  RTarget :: string
  Operand :: string

record Affinity = Constraint +
  Weight :: int

text \<open>
  Modelled from the spec: the operand constants of package nomad/structs (not under
  src/). Section 4.2 and the comments of \<^verbatim>\<open>parseConstraints\<close> name each operand after its alias
  attribute.
\<close>

definition ConstraintVersion :: string where "ConstraintVersion = ''version''"
definition ConstraintRegex :: string where "ConstraintRegex = ''regexp''"
definition ConstraintSetContains :: string where "ConstraintSetContains = ''set_contains''"
definition ConstraintSetContainsAny :: string where "ConstraintSetContainsAny = ''set_contains_any''"
definition ConstraintSetContainsAll :: string where "ConstraintSetContainsAll = ''set_contains_all''"
definition ConstraintDistinctHosts :: string where "ConstraintDistinctHosts = ''distinct_hosts''"
definition ConstraintDistinctProperty :: string where
  "ConstraintDistinctProperty = ''distinct_property''"

text \<open>\<^verbatim>\<open>fmt.Errorf(text + "%v", err)\<close>.\<close>

fun Errorf :: "string \<Rightarrow> error \<Rightarrow> error" where
  "Errorf text (Error s) = Error (text @ s)"
| "Errorf text Panic = Panic"

definition parseBool :: "hval \<Rightarrow> error + bool" where
  "parseBool v =
     (case v of
        HString s \<Rightarrow>
          (case ParseBool s of
             Some b \<Rightarrow> Inr b
           | None \<Rightarrow> Inl (Error (''strconv.ParseBool: parsing '' @ s @ '': invalid syntax'')))
      | HBool b \<Rightarrow> Inr b
      | _ \<Rightarrow> Inl (Error ''value could not be converted to boolean value''))"

text \<open>\<^verbatim>\<open>mapstructure.WeakDecode(m, &c)\<close> for a constraint.\<close>

definition decodeConstraint :: "attrs \<Rightarrow> error + Constraint" where
  "decodeConstraint m =
     bindE (field m ''LTarget'' weakString []) (\<lambda>l.
     bindE (field m ''RTarget'' weakString []) (\<lambda>r.
     bindE (field m ''Operand'' weakString []) (\<lambda>op.
       Inr \<lparr>LTarget = l, RTarget = r, Operand = op\<rparr>)))"

text \<open>An alias attribute sets the operand to its own name and the right target to its value.\<close>

definition setAlias :: "string \<Rightarrow> attrs \<Rightarrow> attrs" where
  "setAlias key m =
     (case m key of
        Some constraint \<Rightarrow> m(''Operand'' \<mapsto> HString key, ''RTarget'' \<mapsto> constraint)
      | None \<Rightarrow> m)"

text \<open>Lines 595 to 609 of \<^verbatim>\<open>parseConstraints\<close>: distinct_property, decoding, the default operand.\<close>

definition buildConstraint :: "attrs \<Rightarrow> error + Constraint" where
  "buildConstraint m0 =
     (let m = (case m0 ConstraintDistinctProperty of
                 Some property \<Rightarrow>
                   m0(''Operand'' \<mapsto> HString ConstraintDistinctProperty, ''LTarget'' \<mapsto> property)
               | None \<Rightarrow> m0)
      in bindE (decodeConstraint m) (\<lambda>c.
           Inr (if Operand c = [] then c\<lparr>Operand := ''=''\<rparr> else c)))"

definition constraint_valid :: "string list" where
  "constraint_valid =
     [''attribute'', ''distinct_hosts'', ''distinct_property'', ''operator'', ''regexp'',
      ''set_contains'', ''value'', ''version'']"

text \<open>
  The body of the loop of \<^verbatim>\<open>parseConstraints\<close> for one entry: \<open>None\<close> is the \<^verbatim>\<open>continue\<close> of a
  disabled distinct_hosts, \<open>Some c\<close> the constraint that is appended.
\<close>

definition parseConstraint :: "lib \<Rightarrow> ObjectItem \<Rightarrow> error + Constraint option" where
  "parseConstraint L obj =
     bindE (CheckHCLKeys (Val obj) constraint_valid) (\<lambda>_.
     bindE (DecodeObject L (Val obj)) (\<lambda>m0.
       let m1 = m0(''LTarget'' := m0 ''attribute'');
           m2 = m1(''RTarget'' := m1 ''value'');
           m3 = m2(''Operand'' := m2 ''operator'');
           m4 = setAlias ConstraintVersion m3;
           m5 = setAlias ConstraintRegex m4;
           m = setAlias ConstraintSetContains m5
       in case m ConstraintDistinctHosts of
            Some v \<Rightarrow>
              (case parseBool v of
                 Inl err \<Rightarrow>
                   Inl (Errorf ''distinct_hosts should be set to true or false; '' err)
               | Inr enabled \<Rightarrow>
                   if \<not> enabled then Inr None
                   else bindE (buildConstraint (m(''Operand'' \<mapsto> HString ConstraintDistinctHosts)))
                          (\<lambda>c. Inr (Some c)))
          | None \<Rightarrow> bindE (buildConstraint m) (\<lambda>c. Inr (Some c))))"

fun parseConstraints_loop :: "lib \<Rightarrow> Constraint list \<Rightarrow> ObjectList \<Rightarrow> error + Constraint list" where
  "parseConstraints_loop L result [] = Inr result"
| "parseConstraints_loop L result (obj # rest) =
     (case parseConstraint L obj of
        Inl e \<Rightarrow> Inl e
      | Inr None \<Rightarrow> parseConstraints_loop L result rest
      | Inr (Some c) \<Rightarrow> parseConstraints_loop L (result @ [c]) rest)"

definition parseConstraints :: "lib \<Rightarrow> Constraint list \<Rightarrow> ObjectList \<Rightarrow> error + Constraint list" where
  "parseConstraints L result list = parseConstraints_loop L result (Elem list)"

definition int8 :: "int \<Rightarrow> int" where
  "int8 i = (i + 128) mod 256 - 128"

definition weakInt8 :: "lib \<Rightarrow> hval \<Rightarrow> error + int" where
  "weakInt8 L v =
     (case v of
        HString s \<Rightarrow>
          (case ParseInt L s of
             Some i \<Rightarrow>
               if - 128 \<le> i \<and> i < 128 then Inr i
               else Inl (Error ''mapstructure: cannot parse as int'')
           | None \<Rightarrow> Inl (Error ''mapstructure: cannot parse as int''))
      | _ \<Rightarrow> bindE (weakInt L v) (\<lambda>i. Inr (int8 i)))"

definition decodeAffinity :: "lib \<Rightarrow> attrs \<Rightarrow> error + Affinity" where
  "decodeAffinity L m =
     bindE (field m ''LTarget'' weakString []) (\<lambda>l.
     bindE (field m ''RTarget'' weakString []) (\<lambda>r.
     bindE (field m ''Operand'' weakString []) (\<lambda>op.
     bindE (field m ''weight'' (weakInt8 L) 0) (\<lambda>w.
       Inr \<lparr>LTarget = l, RTarget = r, Operand = op, Weight = w\<rparr>))))"

definition affinity_valid :: "string list" where
  "affinity_valid =
     [''attribute'', ''operator'', ''regexp'', ''set_contains'', ''set_contains_any'',
      ''set_contains_all'', ''value'', ''version'', ''weight'']"

definition parseAffinity :: "lib \<Rightarrow> ObjectItem \<Rightarrow> error + Affinity" where
  "parseAffinity L obj =
     bindE (CheckHCLKeys (Val obj) affinity_valid) (\<lambda>_.
     bindE (DecodeObject L (Val obj)) (\<lambda>m0.
       let m1 = m0(''LTarget'' := m0 ''attribute'');
           m2 = m1(''RTarget'' := m1 ''value'');
           m3 = m2(''Operand'' := m2 ''operator'');
           m4 = setAlias ConstraintVersion m3;
           m5 = setAlias ConstraintRegex m4;
           m6 = setAlias ConstraintSetContainsAny m5;
           m7 = setAlias ConstraintSetContainsAll m6;
           m = setAlias ConstraintSetContains m7
       in bindE (decodeAffinity L m) (\<lambda>a.
            Inr (if Operand a = [] then a\<lparr>Operand := ''=''\<rparr> else a))))"

fun parseAffinities_loop :: "lib \<Rightarrow> Affinity list \<Rightarrow> ObjectList \<Rightarrow> error + Affinity list" where
  "parseAffinities_loop L result [] = Inr result"
| "parseAffinities_loop L result (obj # rest) =
     (case parseAffinity L obj of
        Inl e \<Rightarrow> Inl e
      | Inr a \<Rightarrow> parseAffinities_loop L (result @ [a]) rest)"

definition parseAffinities :: "lib \<Rightarrow> Affinity list \<Rightarrow> ObjectList \<Rightarrow> error + Affinity list" where
  "parseAffinities L result list = parseAffinities_loop L result (Elem list)"

section \<open>Helpers shared by the parsers\<close>

text \<open>The format \<^verbatim>\<open>'%s'\<close>: a name between single quotes.\<close>

definition quoted :: "string \<Rightarrow> string" where
  "quoted n = CHR 0x27 # n @ [CHR 0x27]"

text \<open>The keys of the map that \<open>DecodeObject\<close> builds from a block: the first keys of its items.\<close>

fun objectKeys :: "node \<Rightarrow> string list" where
  "objectKeys (ObjectType l) = remdups (concat (map (\<lambda>item. take 1 (Keys item)) l))"
| "objectKeys n = []"

text \<open>
  \<^verbatim>\<open>mapstructure.WeakDecode(m, &result)\<close> for a \<^verbatim>\<open>map[string]string\<close> (meta, env, artifact
  options): every key of the decoded block is written over the map, its value read as a
  string.
\<close>

fun weakStringMap :: "attrs \<Rightarrow> string list \<Rightarrow> (string \<rightharpoonup> string) \<Rightarrow> error + (string \<rightharpoonup> string)" where
  "weakStringMap m [] result = Inr result"
| "weakStringMap m (k # ks) result =
     (case m k of
        None \<Rightarrow> weakStringMap m ks result
      | Some v \<Rightarrow>
          (case weakString v of
             Inl e \<Rightarrow> Inl e
           | Inr s \<Rightarrow> weakStringMap m ks (result(k \<mapsto> s))))"

text \<open>
  The merge loop over repeated meta or env blocks:
  \<^verbatim>\<open>for _, o := range list.Elem().Items { DecodeObject(&m, o.Val); WeakDecode(m, &result) }\<close>.
\<close>

fun mergeStringMaps :: "lib \<Rightarrow> (string \<rightharpoonup> string) \<Rightarrow> ObjectList \<Rightarrow> error + (string \<rightharpoonup> string)" where
  "mergeStringMaps L result [] = Inr result"
| "mergeStringMaps L result (obj # rest) =
     bindE (DecodeObject L (Val obj)) (\<lambda>m.
     bindE (weakStringMap m (objectKeys (Val obj)) result) (\<lambda>result'.
       mergeStringMaps L result' rest))"

text \<open>
  A struct field on a map whose keys no whitelist has checked: mapstructure takes the key
  that equals the field's name and otherwise a key that equals it up to case. Where several
  keys do, Go's choice follows its map iteration; the model tries the spellings in a fixed
  order.
\<close>

definition toUpperChar :: "char \<Rightarrow> char" where
  "toUpperChar c =
     (case map_of (zip ''abcdefghijklmnopqrstuvwxyz'' ''ABCDEFGHIJKLMNOPQRSTUVWXYZ'') c of
        Some d \<Rightarrow> d | None \<Rightarrow> c)"

fun caseVariants :: "string \<Rightarrow> string list" where
  "caseVariants [] = [[]]"
| "caseVariants (c # cs) =
     (if toUpperChar c = toLowerChar c then map ((#) c) (caseVariants cs)
      else map ((#) (toLowerChar c)) (caseVariants cs) @ map ((#) (toUpperChar c)) (caseVariants cs))"

definition matchKey :: "attrs \<Rightarrow> string \<Rightarrow> hval option" where
  "matchKey m name =
     (case m name of
        Some v \<Rightarrow> Some v
      | None \<Rightarrow>
          (case filter (\<lambda>k. m k \<noteq> None) (caseVariants name) of
             [] \<Rightarrow> None
           | k # ks \<Rightarrow> m k))"

section \<open>Ports and network resources\<close>

record Port =
  Label :: string
  Value :: int

text \<open>
  \<^verbatim>\<open>api.NetworkResource\<close>, as far as the parser can set it: the bandwidth and the two port
  lists.
\<close>

record NetworkResource =
  MBits :: "int option"
  ReservedPorts :: "Port list"
  DynamicPorts :: "Port list"

text \<open>\<^verbatim>\<open>reDynamicPorts.MatchString\<close> for \<^verbatim>\<open>^[a-zA-Z0-9_]+$\<close>.\<close>

definition reDynamicPorts :: "string \<Rightarrow> bool" where
  "reDynamicPorts label =
     (label \<noteq> [] \<and>
      list_all (\<lambda>c. c \<in> set ''abcdefghijklmnopqrstuvwxyzABCDEFGHIJKLMNOPQRSTUVWXYZ0123456789_'')
        label)"

definition errPortLabel :: error where
  "errPortLabel = Error ''Port label does not conform to naming requirements ^[a-zA-Z0-9_]+$''"

text \<open>\<^verbatim>\<open>mapstructure.WeakDecode(p, &res)\<close> for a port.\<close>

definition decodePort :: "lib \<Rightarrow> attrs \<Rightarrow> error + Port" where
  "decodePort L p =
     bindE (case matchKey p ''Label'' of None \<Rightarrow> Inr [] | Some v \<Rightarrow> weakString v) (\<lambda>l.
     bindE (case matchKey p (PortValueKey L) of None \<Rightarrow> Inr 0 | Some v \<Rightarrow> weakInt L v) (\<lambda>v.
       Inr \<lparr>Label = l, Value = v\<rparr>))"

fun parsePorts_loop :: "lib \<Rightarrow> string set \<Rightarrow> NetworkResource \<Rightarrow> ObjectList \<Rightarrow> error + NetworkResource" where
  "parsePorts_loop L knownPortLabels nw [] = Inr nw"
| "parsePorts_loop L knownPortLabels nw (port # rest) =
     (case Keys port of
        [] \<Rightarrow> Inl (Error ''ports must be named'')
      | label # ks \<Rightarrow>
          if \<not> reDynamicPorts label then Inl errPortLabel
          else if ToLower label \<in> knownPortLabels then
            Inl (Error (''found a port label collision: '' @ label))
          else
            bindE (DecodeObject L (Val port)) (\<lambda>p.
            bindE (decodePort L p) (\<lambda>res0.
              let res = res0\<lparr>Label := label\<rparr>;
                  nw' = (if Value res > 0
                         then nw\<lparr>ReservedPorts := ReservedPorts nw @ [res]\<rparr>
                         else nw\<lparr>DynamicPorts := DynamicPorts nw @ [res]\<rparr>)
              in parsePorts_loop L (insert (ToLower label) knownPortLabels) nw' rest)))"

definition parsePorts :: "lib \<Rightarrow> ObjectList \<Rightarrow> NetworkResource \<Rightarrow> error + NetworkResource" where
  "parsePorts L networkObj nw =
     bindE (CheckHCLKeys_list networkObj [''mbits'', ''port'']) (\<lambda>_.
       parsePorts_loop L {} nw (Filter networkObj ''port''))"

section \<open>Vault\<close>

record Vault =
  Policies :: "string list"
  Env :: "bool option"
  ChangeMode :: "string option"
  ChangeSignal :: "string option"

text \<open>\<^verbatim>\<open>mapstructure.WeakDecode(m, result)\<close> for a vault block, over the caller's defaults.\<close>

definition decodeVault :: "attrs \<Rightarrow> Vault \<Rightarrow> error + Vault" where
  "decodeVault m result =
     bindE (field m ''policies'' weakStrings (Policies result)) (\<lambda>ps.
     bindE (fieldPtr m ''env'' weakBool (Env result)) (\<lambda>e.
     bindE (fieldPtr m ''change_mode'' weakString (ChangeMode result)) (\<lambda>cm.
     bindE (fieldPtr m ''change_signal'' weakString (ChangeSignal result)) (\<lambda>cs.
       Inr \<lparr>Policies = ps, Env = e, ChangeMode = cm, ChangeSignal = cs\<rparr>))))"

definition parseVault :: "lib \<Rightarrow> Vault \<Rightarrow> ObjectList \<Rightarrow> error + Vault" where
  "parseVault L result list0 =
     (let list = Elem list0 in
      case list of
        [] \<Rightarrow> Inr result
      | obj # others \<Rightarrow>
          if length list > 1 then
            Inl (Error (''only one '' @ quoted ''vault'' @ '' block allowed per task''))
          else
            (case Val obj of
               ObjectType listVal \<Rightarrow>
                 bindE (prefixE ''vault ->''
                          (CheckHCLKeys_list listVal
                             [''policies'', ''env'', ''change_mode'', ''change_signal''])) (\<lambda>_.
                 bindE (DecodeObject L (Val obj)) (\<lambda>m.
                   decodeVault m result))
             | _ \<Rightarrow> Inl (Error ''vault: should be an object'')))"

text \<open>The defaults that every caller of \<open>parseVault\<close> builds first.\<close>

definition defaultVault :: Vault where
  "defaultVault = \<lparr>Policies = [], Env = Some True, ChangeMode = Some ''restart'', ChangeSignal = None\<rparr>"

section \<open>Singleton policy blocks\<close>

text \<open>
  Each of these parsers takes the unlabelled blocks of its kind (\<^verbatim>\<open>list.Elem()\<close>), refuses
  more than one, and reads \<^verbatim>\<open>list.Items[0]\<close>: on an empty list that index is out of range.
  The decoded struct replaces the caller's pointer.
\<close>

definition parseRestartPolicy :: "lib \<Rightarrow> ObjectList \<Rightarrow> error + attrs" where
  "parseRestartPolicy L list0 =
     (let list = Elem list0 in
      if length list > 1 then
        Inl (Error (''only one '' @ quoted ''restart'' @ '' block allowed''))
      else
        case list of
          [] \<Rightarrow> Inl Panic
        | obj # others \<Rightarrow>
            bindE (CheckHCLKeys (Val obj) [''attempts'', ''interval'', ''delay'', ''mode'']) (\<lambda>_.
            bindE (DecodeObject L (Val obj)) (\<lambda>m.
              WeakDecodeStruct L ''RestartPolicy'' Map.empty m)))"

definition parseReschedulePolicy :: "lib \<Rightarrow> ObjectList \<Rightarrow> error + attrs" where
  "parseReschedulePolicy L list0 =
     (let list = Elem list0 in
      if length list > 1 then
        Inl (Error (''only one '' @ quoted ''reschedule'' @ '' block allowed''))
      else
        case list of
          [] \<Rightarrow> Inl Panic
        | obj # others \<Rightarrow>
            bindE (CheckHCLKeys (Val obj)
                     [''attempts'', ''interval'', ''unlimited'', ''delay'', ''max_delay'',
                      ''delay_function'']) (\<lambda>_.
            bindE (DecodeObject L (Val obj)) (\<lambda>m.
              WeakDecodeStruct L ''ReschedulePolicy'' Map.empty m)))"

definition parseEphemeralDisk :: "lib \<Rightarrow> ObjectList \<Rightarrow> error + attrs" where
  "parseEphemeralDisk L list0 =
     (let list = Elem list0 in
      if length list > 1 then
        Inl (Error (''only one '' @ quoted ''ephemeral_disk'' @ '' block allowed''))
      else
        case list of
          [] \<Rightarrow> Inl Panic
        | obj # others \<Rightarrow>
            bindE (CheckHCLKeys (Val obj) [''sticky'', ''size'', ''migrate'']) (\<lambda>_.
            bindE (DecodeObject L (Val obj)) (\<lambda>m.
              WeakDecodeStruct L ''EphemeralDisk'' Map.empty m)))"

definition parseUpdate :: "lib \<Rightarrow> ObjectList \<Rightarrow> error + attrs" where
  "parseUpdate L list0 =
     (let list = Elem list0 in
      if length list > 1 then
        Inl (Error (''only one '' @ quoted ''update'' @ '' block allowed''))
      else
        case list of
          [] \<Rightarrow> Inl Panic
        | obj # others \<Rightarrow>
            bindE (DecodeObject L (Val obj)) (\<lambda>m.
            bindE (CheckHCLKeys (Val obj)
                     [''stagger'', ''max_parallel'', ''health_check'', ''min_healthy_time'',
                      ''healthy_deadline'', ''progress_deadline'', ''auto_revert'', ''canary'']) (\<lambda>_.
              WeakDecodeStruct L ''UpdateStrategy'' Map.empty m)))"

definition parseMigrate :: "lib \<Rightarrow> ObjectList \<Rightarrow> error + attrs" where
  "parseMigrate L list0 =
     (let list = Elem list0 in
      if length list > 1 then
        Inl (Error (''only one '' @ quoted ''migrate'' @ '' block allowed''))
      else
        case list of
          [] \<Rightarrow> Inl Panic
        | obj # others \<Rightarrow>
            bindE (DecodeObject L (Val obj)) (\<lambda>m.
            bindE (CheckHCLKeys (Val obj)
                     [''max_parallel'', ''health_check'', ''min_healthy_time'',
                      ''healthy_deadline'']) (\<lambda>_.
              WeakDecodeStruct L ''MigrateStrategy'' Map.empty m)))"

text \<open>
  Modelled from the spec: the constant \<^verbatim>\<open>structs.PeriodicSpecCron\<close> (package nomad/structs, not
  under src/); the comment of \<^verbatim>\<open>parsePeriodic\<close> gives its value: the type is set to "cron".
\<close>

definition PeriodicSpecCron :: string where "PeriodicSpecCron = ''cron''"

definition parsePeriodic :: "lib \<Rightarrow> ObjectList \<Rightarrow> error + attrs" where
  "parsePeriodic L list0 =
     (let list = Elem list0 in
      if length list > 1 then
        Inl (Error (''only one '' @ quoted ''periodic'' @ '' block allowed per job''))
      else
        case list of
          [] \<Rightarrow> Inl Panic
        | obj # others \<Rightarrow>
            bindE (DecodeObject L (Val obj)) (\<lambda>m0.
            bindE (CheckHCLKeys (Val obj)
                     [''enabled'', ''cron'', ''prohibit_overlap'', ''time_zone'']) (\<lambda>_.
            bindE (case m0 ''enabled'' of
                     Some v \<Rightarrow>
                       (case parseBool v of
                          Inl err \<Rightarrow>
                            Inl (Errorf ''periodic.enabled should be set to true or false; '' err)
                        | Inr enabled \<Rightarrow> Inr (m0(''Enabled'' \<mapsto> HBool enabled)))
                   | None \<Rightarrow> Inr m0) (\<lambda>m1.
              let m = (case m1 ''cron'' of
                         Some cron \<Rightarrow> m1(''SpecType'' \<mapsto> HString PeriodicSpecCron, ''Spec'' \<mapsto> cron)
                       | None \<Rightarrow> m1)
              in WeakDecodeStruct L ''PeriodicConfig'' Map.empty m))))"

definition parseParameterizedJob :: "lib \<Rightarrow> ObjectList \<Rightarrow> error + attrs" where
  "parseParameterizedJob L list0 =
     (let list = Elem list0 in
      if length list > 1 then
        Inl (Error (''only one '' @ quoted ''parameterized'' @ '' block allowed per job''))
      else
        case list of
          [] \<Rightarrow> Inl Panic
        | obj # others \<Rightarrow>
            bindE (DecodeObject L (Val obj)) (\<lambda>m.
            bindE (CheckHCLKeys (Val obj) [''payload'', ''meta_required'', ''meta_optional'']) (\<lambda>_.
              WeakDecodeStruct L ''ParameterizedJobConfig'' Map.empty m)))"

section \<open>Spreads\<close>

record Spread =
  SpreadFields :: attrs
  SpreadTarget :: "attrs list"

fun parseSpreadTarget_loop :: "lib \<Rightarrow> string set \<Rightarrow> attrs list \<Rightarrow> ObjectList \<Rightarrow> error + attrs list" where
  "parseSpreadTarget_loop L seen result [] = Inr result"
| "parseSpreadTarget_loop L seen result (item # rest) =
     (case Keys item of
        [n] \<Rightarrow>
          if n \<in> seen then
            Inl (Error (''target '' @ quoted n @ '' defined more than once''))
          else
            (case Val item of
               ObjectType listVal \<Rightarrow>
                 bindE (prefixE (quoted n @ '' ->'')
                          (CheckHCLKeys_list listVal [''percent'', ''value''])) (\<lambda>_.
                 bindE (DecodeObject L (Val item)) (\<lambda>m.
                 bindE (WeakDecodeStruct L ''SpreadTarget'' [''Value'' \<mapsto> HString n] m) (\<lambda>g.
                   parseSpreadTarget_loop L (insert n seen) (result @ [g]) rest)))
             | _ \<Rightarrow> Inl (Error ''target should be an object''))
      | _ \<Rightarrow> Inl (Error ''missing spread target''))"

definition parseSpreadTarget :: "lib \<Rightarrow> attrs list \<Rightarrow> ObjectList \<Rightarrow> error + attrs list" where
  "parseSpreadTarget L result list = parseSpreadTarget_loop L {} result list"

definition parseSpread_item :: "lib \<Rightarrow> ObjectItem \<Rightarrow> error + Spread" where
  "parseSpread_item L obj =
     bindE (CheckHCLKeys (Val obj) [''attribute'', ''weight'', ''target'']) (\<lambda>_.
       case Val obj of
         ObjectType listVal \<Rightarrow>
           bindE (DecodeObject L (Val obj)) (\<lambda>m.
           bindE (WeakDecodeStruct L ''Spread'' Map.empty (m(''target'' := None))) (\<lambda>s.
           bindE (let targets = Filter listVal ''target'' in
                  if targets = [] then Inr []
                  else prefixE ''target ->'' (parseSpreadTarget L [] targets)) (\<lambda>ts.
             Inr \<lparr>SpreadFields = s, SpreadTarget = ts\<rparr>)))
       | _ \<Rightarrow> Inl (Error ''spread should be an object''))"

fun parseSpread_loop :: "lib \<Rightarrow> Spread list \<Rightarrow> ObjectList \<Rightarrow> error + Spread list" where
  "parseSpread_loop L result [] = Inr result"
| "parseSpread_loop L result (obj # rest) =
     bindE (parseSpread_item L obj) (\<lambda>s. parseSpread_loop L (result @ [s]) rest)"

definition parseSpread :: "lib \<Rightarrow> Spread list \<Rightarrow> ObjectList \<Rightarrow> error + Spread list" where
  "parseSpread L result list = parseSpread_loop L result (Elem list)"

section \<open>Artifacts and templates\<close>

record TaskArtifact =
  ArtifactFields :: attrs
  GetterOptions :: "(string \<rightharpoonup> string) option"

definition parseArtifactOption :: "lib \<Rightarrow> (string \<rightharpoonup> string) \<Rightarrow> ObjectList \<Rightarrow> error + (string \<rightharpoonup> string)" where
  "parseArtifactOption L result list0 =
     (let list = Elem list0 in
      if length list > 1 then
        Inl (Error (''only one '' @ quoted ''options'' @ '' block allowed per artifact''))
      else
        case list of
          [] \<Rightarrow> Inl Panic
        | obj # others \<Rightarrow>
            bindE (DecodeObject L (Val obj)) (\<lambda>m.
              weakStringMap m (objectKeys (Val obj)) result))"

definition parseArtifact :: "lib \<Rightarrow> ObjectItem \<Rightarrow> error + TaskArtifact" where
  "parseArtifact L obj =
     bindE (CheckHCLKeys (Val obj) [''source'', ''options'', ''mode'', ''destination'']) (\<lambda>_.
     bindE (DecodeObject L (Val obj)) (\<lambda>m.
     bindE (WeakDecodeStruct L ''TaskArtifact'' Map.empty (m(''options'' := None))) (\<lambda>ta.
       case Val obj of
         ObjectType optionList \<Rightarrow>
           (let oo = Filter optionList ''options'' in
            if oo = [] then Inr \<lparr>ArtifactFields = ta, GetterOptions = None\<rparr>
            else
              bindE (prefixE ''options: '' (parseArtifactOption L Map.empty oo)) (\<lambda>options.
                Inr \<lparr>ArtifactFields = ta, GetterOptions = Some options\<rparr>))
       | _ \<Rightarrow> Inl (Error ''artifact should be an object''))))"

fun parseArtifacts_loop :: "lib \<Rightarrow> TaskArtifact list \<Rightarrow> ObjectList \<Rightarrow> error + TaskArtifact list" where
  "parseArtifacts_loop L result [] = Inr result"
| "parseArtifacts_loop L result (obj # rest) =
     bindE (parseArtifact L obj) (\<lambda>ta. parseArtifacts_loop L (result @ [ta]) rest)"

definition parseArtifacts :: "lib \<Rightarrow> TaskArtifact list \<Rightarrow> ObjectList \<Rightarrow> error + TaskArtifact list" where
  "parseArtifacts L result list = parseArtifacts_loop L result (Elem list)"

text \<open>The template defaults: change mode restart, splay 5 seconds, permissions 0644.\<close>

definition templateDefaults :: attrs where
  "templateDefaults =
     [''ChangeMode'' \<mapsto> HString ''restart'', ''Splay'' \<mapsto> HInt (5 * 1000000000),
      ''Perms'' \<mapsto> HString ''0644'']"

definition parseTemplate :: "lib \<Rightarrow> ObjectItem \<Rightarrow> error + attrs" where
  "parseTemplate L obj =
     bindE (CheckHCLKeys (Val obj)
              [''change_mode'', ''change_signal'', ''data'', ''destination'', ''left_delimiter'',
               ''perms'', ''right_delimiter'', ''source'', ''splay'', ''env'', ''vault_grace'']) (\<lambda>_.
     bindE (DecodeObject L (Val obj)) (\<lambda>m.
       WeakDecodeStruct L ''Template'' templateDefaults m))"

fun parseTemplates_loop :: "lib \<Rightarrow> attrs list \<Rightarrow> ObjectList \<Rightarrow> error + attrs list" where
  "parseTemplates_loop L result [] = Inr result"
| "parseTemplates_loop L result (obj # rest) =
     bindE (parseTemplate L obj) (\<lambda>templ. parseTemplates_loop L (result @ [templ]) rest)"

definition parseTemplates :: "lib \<Rightarrow> attrs list \<Rightarrow> ObjectList \<Rightarrow> error + attrs list" where
  "parseTemplates L result list = parseTemplates_loop L result (Elem list)"

section \<open>Services and checks\<close>

record ServiceCheck =
  CheckFields :: attrs
  Header :: "(string \<rightharpoonup> string list) option"
  CheckRestart :: "attrs option"

record Service =
  ServiceFields :: attrs
  Checks :: "ServiceCheck list"
  CheckRestart :: "attrs option"

text \<open>The \<^verbatim>\<open>Name\<close> field of a decoded service or check, for the error messages.\<close>

definition structName :: "attrs \<Rightarrow> string" where
  "structName s = (case s ''Name'' of Some (HString n) \<Rightarrow> n | _ \<Rightarrow> [])"

definition parseCheckRestart :: "lib \<Rightarrow> ObjectItem \<Rightarrow> error + attrs" where
  "parseCheckRestart L cro =
     bindE (prefixE ''check_restart ->''
              (CheckHCLKeys (Val cro) [''limit'', ''grace'', ''ignore_warnings''])) (\<lambda>_.
     bindE (DecodeObject L (Val cro)) (\<lambda>crm.
       WeakDecodeStruct L ''CheckRestart'' Map.empty crm))"

text \<open>
  The header blocks of a check are merged into one map from header names to value lists;
  every value must be a list of strings.
\<close>

fun headerValues :: "hval list \<Rightarrow> string list \<Rightarrow> error + string list" where
  "headerValues [] acc = Inr acc"
| "headerValues (vI # vs) acc =
     (case vI of
        HString v \<Rightarrow> headerValues vs (acc @ [v])
      | _ \<Rightarrow> Inl (Error ''check -> header -> expected a string''))"

fun headerKeys :: "attrs \<Rightarrow> string list \<Rightarrow> (string \<rightharpoonup> string list) \<Rightarrow> error + (string \<rightharpoonup> string list)" where
  "headerKeys rawm [] m = Inr m"
| "headerKeys rawm (k # ks) m =
     (case rawm k of
        Some (HList vs) \<Rightarrow>
          bindE (headerValues vs (case m k of None \<Rightarrow> [] | Some old \<Rightarrow> old)) (\<lambda>new.
            headerKeys rawm ks (m(k \<mapsto> new)))
      | _ \<Rightarrow> Inl (Error ''check -> header -> expected a []string''))"

fun headerBlocks :: "lib \<Rightarrow> node list \<Rightarrow> (string \<rightharpoonup> string list) \<Rightarrow> error + (string \<rightharpoonup> string list)" where
  "headerBlocks L [] m = Inr m"
| "headerBlocks L (b # bs) m =
     bindE (DecodeObject L b) (\<lambda>rawm.
     bindE (headerKeys rawm (objectKeys b) m) (\<lambda>m'.
       headerBlocks L bs m'))"

definition parseCheck :: "lib \<Rightarrow> ObjectItem \<Rightarrow> error + ServiceCheck" where
  "parseCheck L co =
     bindE (prefixE ''check ->''
              (CheckHCLKeys (Val co)
                 [''name'', ''type'', ''interval'', ''timeout'', ''path'', ''protocol'', ''port'',
                  ''command'', ''args'', ''initial_status'', ''tls_skip_verify'', ''header'',
                  ''method'', ''check_restart'', ''address_mode'', ''grpc_service'',
                  ''grpc_use_tls''])) (\<lambda>_.
     bindE (DecodeObject L (Val co)) (\<lambda>cm.
     bindE (case cm ''header'' of
              None \<Rightarrow> Inr None
            | Some (HBlocks headerRaw) \<Rightarrow>
                bindE (headerBlocks L headerRaw Map.empty) (\<lambda>m. Inr (Some m))
            | Some headerI \<Rightarrow>
                Inl (Error ''check -> header -> expected a []map[string][]string'')) (\<lambda>header.
     bindE (WeakDecodeStruct L ''ServiceCheck'' Map.empty
              (cm(''header'' := None, ''check_restart'' := None))) (\<lambda>check.
       case Val co of
         ObjectType checkRestartList \<Rightarrow>
           (let cro = Filter checkRestartList ''check_restart'' in
            case cro of
              [] \<Rightarrow> Inr \<lparr>CheckFields = check, Header = header, CheckRestart = None\<rparr>
            | c # others \<Rightarrow>
                if length cro > 1 then
                  Inl (Error (''check_restart '' @ quoted (structName check) @
                              '': cannot have more than 1 check_restart''))
                else
                  bindE (prefixE (''check: '' @ quoted (structName check) @ '','')
                           (parseCheckRestart L c)) (\<lambda>cr.
                    Inr \<lparr>CheckFields = check, Header = header, CheckRestart = Some cr\<rparr>))
       | _ \<Rightarrow>
           Inl (Error (''check_restart '' @ quoted (structName check) @
                       '': should be an object''))))))"

fun parseChecks_loop :: "lib \<Rightarrow> ServiceCheck list \<Rightarrow> ObjectList \<Rightarrow> error + ServiceCheck list" where
  "parseChecks_loop L result [] = Inr result"
| "parseChecks_loop L result (co # rest) =
     bindE (parseCheck L co) (\<lambda>check. parseChecks_loop L (result @ [check]) rest)"

definition parseChecks :: "lib \<Rightarrow> ObjectList \<Rightarrow> error + ServiceCheck list" where
  "parseChecks L checkObjs = parseChecks_loop L [] checkObjs"

definition parseService :: "lib \<Rightarrow> nat \<Rightarrow> ObjectItem \<Rightarrow> error + Service" where
  "parseService L idx obj =
     bindE (prefixE (''service ('' @ natToStr idx @ '') ->'')
              (CheckHCLKeys (Val obj)
                 [''name'', ''tags'', ''canary_tags'', ''port'', ''check'', ''address_mode'',
                  ''check_restart''])) (\<lambda>_.
     bindE (DecodeObject L (Val obj)) (\<lambda>m.
     bindE (WeakDecodeStruct L ''Service'' Map.empty
              (m(''check'' := None, ''check_restart'' := None))) (\<lambda>service.
       case Val obj of
         ObjectType checkList \<Rightarrow>
           bindE (let co = Filter checkList ''check'' in
                  if co = [] then Inr []
                  else prefixE (''service: '' @ quoted (structName service) @ '','')
                         (parseChecks L co)) (\<lambda>checks.
             let cro = Filter checkList ''check_restart'' in
             case cro of
               [] \<Rightarrow> Inr \<lparr>ServiceFields = service, Checks = checks, CheckRestart = None\<rparr>
             | c # others \<Rightarrow>
                 if length cro > 1 then
                   Inl (Error (''check_restart '' @ quoted (structName service) @
                               '': cannot have more than 1 check_restart''))
                 else
                   bindE (prefixE (''service: '' @ quoted (structName service) @ '','')
                            (parseCheckRestart L c)) (\<lambda>cr.
                     Inr \<lparr>ServiceFields = service, Checks = checks, CheckRestart = Some cr\<rparr>))
       | _ \<Rightarrow>
           Inl (Error (''service '' @ quoted (structName service) @ '': should be an object'')))))"

fun parseServices_loop :: "lib \<Rightarrow> nat \<Rightarrow> Service list \<Rightarrow> ObjectList \<Rightarrow> error + Service list" where
  "parseServices_loop L idx result [] = Inr result"
| "parseServices_loop L idx result (obj # rest) =
     bindE (parseService L idx obj) (\<lambda>service.
       parseServices_loop L (Suc idx) (result @ [service]) rest)"

text \<open>The job and group names are parameters of the source function that its body never reads.\<close>

definition parseServices :: "lib \<Rightarrow> string \<Rightarrow> string \<Rightarrow> ObjectList \<Rightarrow> error + Service list" where
  "parseServices L jobName taskGroupName serviceObjs = parseServices_loop L 0 [] serviceObjs"

section \<open>Resources\<close>

record RequestedDevice =
  DeviceFields :: attrs
  Constraints :: "Constraint list"
  Affinities :: "Affinity list"

record Resources =
  ResourcesFields :: attrs
  Networks :: "NetworkResource list"
  Devices :: "RequestedDevice list"

definition parseDevice :: "lib \<Rightarrow> nat \<Rightarrow> ObjectItem \<Rightarrow> error + RequestedDevice" where
  "parseDevice L idx dev =
     (let pfx = ''resources, device['' @ natToStr idx @ '']->'' in
      case Keys dev of
        [] \<Rightarrow> Inl (Prefix (Error ''missing device name'') pfx)
      | [name] \<Rightarrow>
          (case Val dev of
             ObjectType listVal \<Rightarrow>
               bindE (prefixE pfx
                        (CheckHCLKeys (Val dev) [''name'', ''count'', ''affinity'', ''constraint''])) (\<lambda>_.
               bindE (DecodeObject L (Val dev)) (\<lambda>m.
               bindE (WeakDecodeStruct L ''RequestedDevice'' [''Name'' \<mapsto> HString name]
                        (m(''constraint'' := None, ''affinity'' := None))) (\<lambda>r.
               bindE (let c = Filter listVal ''constraint'' in
                      if c = [] then Inr []
                      else prefixE ''constraint ->'' (parseConstraints L [] c)) (\<lambda>cs.
               bindE (let a = Filter listVal ''affinity'' in
                      if a = [] then Inr []
                      else prefixE ''affinity ->'' (parseAffinities L [] a)) (\<lambda>as.
                 Inr \<lparr>DeviceFields = r, Constraints = cs, Affinities = as\<rparr>)))))
           | _ \<Rightarrow> Inl (Error ''device should be an object''))
      | _ \<Rightarrow> Inl (Prefix (Error ''only one name may be specified'') pfx))"

fun parseDevices_loop :: "lib \<Rightarrow> nat \<Rightarrow> RequestedDevice list \<Rightarrow> ObjectList \<Rightarrow> error + RequestedDevice list" where
  "parseDevices_loop L idx result [] = Inr result"
| "parseDevices_loop L idx result (dev # rest) =
     bindE (parseDevice L idx dev) (\<lambda>r. parseDevices_loop L (Suc idx) (result @ [r]) rest)"

text \<open>\<^verbatim>\<open>mapstructure.WeakDecode(m, &r)\<close> for the network block, whose keys are mbits and port.\<close>

definition decodeNetwork :: "lib \<Rightarrow> attrs \<Rightarrow> error + NetworkResource" where
  "decodeNetwork L m =
     bindE (fieldPtr m ''mbits'' (weakInt L) None) (\<lambda>mb.
       Inr \<lparr>MBits = mb, ReservedPorts = [], DynamicPorts = []\<rparr>)"

definition parseNetwork :: "lib \<Rightarrow> ObjectList \<Rightarrow> error + NetworkResource list" where
  "parseNetwork L nets =
     (case nets of
        [] \<Rightarrow> Inr []
      | net # others \<Rightarrow>
          if length nets > 1 then
            Inl (Error (''only one '' @ quoted ''network'' @ '' resource allowed''))
          else
            bindE (prefixE ''resources, network ->''
                     (CheckHCLKeys (Val net) [''mbits'', ''port''])) (\<lambda>_.
            bindE (DecodeObject L (Val net)) (\<lambda>m.
            bindE (decodeNetwork L m) (\<lambda>r.
              case Val net of
                ObjectType networkObj \<Rightarrow>
                  bindE (prefixE ''resources, network, ports ->'' (parsePorts L networkObj r)) (\<lambda>r'.
                    Inr [r'])
              | _ \<Rightarrow> Inl (Error ''resource: should be an object'')))))"

definition parseResources :: "lib \<Rightarrow> Resources \<Rightarrow> ObjectList \<Rightarrow> error + Resources" where
  "parseResources L result list0 =
     (let list = Elem list0 in
      case list of
        [] \<Rightarrow> Inr result
      | obj # others \<Rightarrow>
          if length list > 1 then
            Inl (Error (''only one '' @ quoted ''resource'' @ '' block allowed per task''))
          else
            (case Val obj of
               ObjectType listVal \<Rightarrow>
                 bindE (prefixE ''resources ->''
                          (CheckHCLKeys_list listVal
                             [''cpu'', ''iops'', ''disk'', ''memory'', ''network'', ''device''])) (\<lambda>_.
                 bindE (DecodeObject L (Val obj)) (\<lambda>m.
                 bindE (WeakDecodeStruct L ''Resources'' (ResourcesFields result)
                          (m(''network'' := None, ''device'' := None))) (\<lambda>fs.
                 bindE (let nets = Filter listVal ''network'' in
                        if nets = [] then Inr (Networks result) else parseNetwork L nets) (\<lambda>ns.
                 bindE (let devs = Filter listVal ''device'' in
                        if devs = [] then Inr (Devices result)
                        else parseDevices_loop L 0 [] devs) (\<lambda>ds.
                   Inr \<lparr>ResourcesFields = fs, Networks = ns, Devices = ds\<rparr>)))))
             | _ \<Rightarrow> Inl (Error ''resource: should be an object'')))"

section \<open>Tasks\<close>

record Task =
  Name :: string
  Driver :: string
  User :: string
  Config :: attrs
  Constraints :: "Constraint list"
  Affinities :: "Affinity list"
  Env :: "string \<rightharpoonup> string"
  Services :: "Service list"
  Resources :: "Resources option"
  Meta :: "string \<rightharpoonup> string"
  KillTimeout :: "int option"
  LogConfig :: "attrs option"
  Artifacts :: "TaskArtifact list"
  Vault :: "Vault option"
  Templates :: "attrs list"
  DispatchPayload :: "attrs option"
  Leader :: bool
  ShutdownDelay :: int
  KillSignal :: string

text \<open>\<^verbatim>\<open>var t api.Task; t.Name = n\<close>.\<close>

definition newTask :: "string \<Rightarrow> Task" where
  "newTask n =
     \<lparr>Name = n, Driver = [], User = [], Config = Map.empty, Constraints = [], Affinities = [],
      Env = Map.empty, Services = [], Resources = None, Meta = Map.empty, KillTimeout = None,
      LogConfig = None, Artifacts = [], Vault = None, Templates = [], DispatchPayload = None,
      Leader = False, ShutdownDelay = 0, KillSignal = []\<rparr>"

definition task_valid :: "string list" where
  "task_valid =
     [''artifact'', ''config'', ''constraint'', ''affinity'', ''dispatch_payload'', ''driver'',
      ''env'', ''kill_timeout'', ''leader'', ''logs'', ''meta'', ''resources'', ''service'',
      ''shutdown_delay'', ''template'', ''user'', ''vault'', ''kill_signal'']"

text \<open>
  The decoder of the task's own attributes (with the duration hook). After the key check
  and the deletions the map can hold driver, user, leader, kill_timeout, shutdown_delay and
  kill_signal.
\<close>

definition decodeTask :: "lib \<Rightarrow> attrs \<Rightarrow> Task \<Rightarrow> error + Task" where
  "decodeTask L m t =
     bindE (field m ''driver'' weakString (Driver t)) (\<lambda>driver.
     bindE (field m ''user'' weakString (User t)) (\<lambda>user.
     bindE (fieldPtr m ''kill_timeout'' (weakDuration L) (KillTimeout t)) (\<lambda>kt.
     bindE (field m ''leader'' weakBool (Leader t)) (\<lambda>leader.
     bindE (field m ''shutdown_delay'' (weakDuration L) (ShutdownDelay t)) (\<lambda>sd.
     bindE (field m ''kill_signal'' weakString (KillSignal t)) (\<lambda>ks.
       Inr (t\<lparr>Driver := driver, User := user, KillTimeout := kt, Leader := leader,
               ShutdownDelay := sd, KillSignal := ks\<rparr>)))))))"

text \<open>Repeated config blocks are decoded over the same \<^verbatim>\<open>map[string]interface{}\<close>.\<close>

fun mergeConfig :: "lib \<Rightarrow> attrs \<Rightarrow> ObjectList \<Rightarrow> error + attrs" where
  "mergeConfig L cfg [] = Inr cfg"
| "mergeConfig L cfg (obj # rest) =
     bindE (DecodeObject L (Val obj)) (\<lambda>m. mergeConfig L (cfg ++ m) rest)"

text \<open>
  A block kind that may occur once, read through \<^verbatim>\<open>o.Items[0]\<close> (logs, dispatch_payload):
  the count in the message is the number of blocks found.
\<close>

definition parseLogs :: "lib \<Rightarrow> string \<Rightarrow> ObjectList \<Rightarrow> error + attrs" where
  "parseLogs L n l =
     (case l of
        [] \<Rightarrow> Inl Panic
      | logsBlock # others \<Rightarrow>
          if length l > 1 then
            Inl (Error (''only one logs block is allowed in a Task. Number of logs block found: ''
                        @ natToStr (length l)))
          else
            bindE (prefixE (quoted n @ '', logs ->'')
                     (CheckHCLKeys (Val logsBlock) [''max_files'', ''max_file_size''])) (\<lambda>_.
            bindE (DecodeObject L (Val logsBlock)) (\<lambda>m.
              WeakDecodeStruct L ''LogConfig'' Map.empty m)))"

definition parseDispatchPayload :: "lib \<Rightarrow> string \<Rightarrow> ObjectList \<Rightarrow> error + attrs" where
  "parseDispatchPayload L n l =
     (case l of
        [] \<Rightarrow> Inl Panic
      | dispatchBlock # others \<Rightarrow>
          if length l > 1 then
            Inl (Error (''only one dispatch_payload block is allowed in a task. '' @
                        ''Number of dispatch_payload blocks found: '' @ natToStr (length l)))
          else
            bindE (prefixE (quoted n @ '', dispatch_payload ->'')
                     (CheckHCLKeys (Val dispatchBlock) [''file''])) (\<lambda>_.
            bindE (DecodeObject L (Val dispatchBlock)) (\<lambda>m.
              WeakDecodeStruct L ''DispatchPayloadConfig'' Map.empty m)))"

definition newResources :: Resources where
  "newResources = \<lparr>ResourcesFields = Map.empty, Networks = [], Devices = []\<rparr>"

text \<open>
  The body of the loop of \<^verbatim>\<open>parseTasks\<close> for the task named \<open>n\<close>, from the key check on.
  Each \<^verbatim>\<open>if o := listVal.Filter(k); len(o.Items) > 0\<close> is an \<open>if\<close> on the filtered list.
\<close>

definition parseTask :: "lib \<Rightarrow> string \<Rightarrow> string \<Rightarrow> string \<Rightarrow> ObjectItem \<Rightarrow> ObjectList \<Rightarrow> error + Task" where
  "parseTask L jobName taskGroupName n item listVal =
     bindE (prefixE (quoted n @ '' ->'') (CheckHCLKeys_list listVal task_valid)) (\<lambda>_.
     bindE (DecodeObject L (Val item)) (\<lambda>m0.
     bindE (decodeTask L
              (m0(''artifact'' := None, ''config'' := None, ''constraint'' := None,
                  ''affinity'' := None, ''dispatch_payload'' := None, ''env'' := None,
                  ''logs'' := None, ''meta'' := None, ''resources'' := None,
                  ''service'' := None, ''template'' := None, ''vault'' := None))
              (newTask n)) (\<lambda>t.
     bindE (let bs = Filter listVal ''env'' in
            if bs = [] then Inr (Env t) else mergeStringMaps L (Env t) (Elem bs)) (\<lambda>env.
     bindE (let bs = Filter listVal ''service'' in
            if bs = [] then Inr (Services t)
            else prefixE (quoted n @ '','') (parseServices L jobName taskGroupName bs)) (\<lambda>services.
     bindE (let bs = Filter listVal ''config'' in
            if bs = [] then Inr (Config t) else mergeConfig L (Config t) (Elem bs)) (\<lambda>config.
     bindE (let bs = Filter listVal ''constraint'' in
            if bs = [] then Inr (Constraints t)
            else prefixE (quoted n @ '', constraint ->'')
                   (parseConstraints L (Constraints t) bs)) (\<lambda>constraints.
     bindE (let bs = Filter listVal ''affinity'' in
            if bs = [] then Inr (Affinities t)
            else prefixE ''affinity ->'' (parseAffinities L (Affinities t) bs)) (\<lambda>affinities.
     bindE (let metaO = Filter listVal ''meta'' in
            if metaO = [] then Inr (Meta t) else mergeStringMaps L (Meta t) (Elem metaO)) (\<lambda>meta.
     bindE (let bs = Filter listVal ''resources'' in
            if bs = [] then Inr (Resources t)
            else bindE (prefixE (quoted n @ '','') (parseResources L newResources bs))
                   (\<lambda>r. Inr (Some r))) (\<lambda>resources.
     bindE (let bs = Filter listVal ''logs'' in
            if bs = [] then Inr (LogConfig t)
            else bindE (parseLogs L n bs) (\<lambda>log. Inr (Some log))) (\<lambda>logConfig.
     bindE (let bs = Filter listVal ''artifact'' in
            if bs = [] then Inr (Artifacts t)
            else prefixE (quoted n @ '', artifact ->'')
                   (parseArtifacts L (Artifacts t) bs)) (\<lambda>artifacts.
     bindE (let bs = Filter listVal ''template'' in
            if bs = [] then Inr (Templates t)
            else prefixE (quoted n @ '', template ->'')
                   (parseTemplates L (Templates t) bs)) (\<lambda>templates.
     bindE (let bs = Filter listVal ''vault'' in
            if bs = [] then Inr (Vault t)
            else bindE (prefixE (quoted n @ '', vault ->'') (parseVault L defaultVault bs))
                   (\<lambda>v. Inr (Some v))) (\<lambda>vault.
     bindE (let bs = Filter listVal ''dispatch_payload'' in
            if bs = [] then Inr (DispatchPayload t)
            else bindE (parseDispatchPayload L n bs) (\<lambda>d. Inr (Some d))) (\<lambda>dispatchPayload.
       Inr (t\<lparr>Env := env, Services := services, Config := config, Constraints := constraints,
               Affinities := affinities, Meta := meta, Resources := resources,
               LogConfig := logConfig, Artifacts := artifacts, Templates := templates,
               Vault := vault, DispatchPayload := dispatchPayload\<rparr>))))))))))))))))"

text \<open>
  The loop of \<^verbatim>\<open>parseTasks\<close>: \<open>seen\<close> holds the names found so far; the group name, when
  empty, becomes the name of the first task. The items come from \<^verbatim>\<open>Children\<close>, so
  \<^verbatim>\<open>item.Keys[0]\<close> exists.
\<close>

fun parseTasks_loop :: "lib \<Rightarrow> string \<Rightarrow> string \<Rightarrow> string set \<Rightarrow> Task list \<Rightarrow> ObjectList \<Rightarrow> error + Task list" where
  "parseTasks_loop L jobName taskGroupName seen result [] = Inr result"
| "parseTasks_loop L jobName taskGroupName seen result (item # rest) =
     (case Keys item of
        [] \<Rightarrow> Inl Panic
      | n # ks \<Rightarrow>
          if n \<in> seen then Inl (Error (''task '' @ quoted n @ '' defined more than once''))
          else
            (case Val item of
               ObjectType listVal \<Rightarrow>
                 (let taskGroupName' = (if taskGroupName = [] then n else taskGroupName) in
                  bindE (parseTask L jobName taskGroupName' n item listVal) (\<lambda>t.
                    parseTasks_loop L jobName taskGroupName' (insert n seen) (result @ [t]) rest))
             | _ \<Rightarrow> Inl (Error (''group '' @ quoted n @ '': should be an object''))))"

definition parseTasks :: "lib \<Rightarrow> string \<Rightarrow> string \<Rightarrow> Task list \<Rightarrow> ObjectList \<Rightarrow> error + Task list" where
  "parseTasks L jobName taskGroupName result list0 =
     (let list = Children list0 in
      if list = [] then Inr result
      else parseTasks_loop L jobName taskGroupName {} result list)"

section \<open>Task groups\<close>

record TaskGroup =
  Name :: "string option"
  Count :: "int option"
  Constraints :: "Constraint list"
  Affinities :: "Affinity list"
  Tasks :: "Task list"
  Spreads :: "Spread list"
  RestartPolicy :: "attrs option"
  ReschedulePolicy :: "attrs option"
  EphemeralDisk :: "attrs option"
  Update :: "attrs option"
  Migrate :: "attrs option"
  Meta :: "string \<rightharpoonup> string"

text \<open>\<^verbatim>\<open>var g api.TaskGroup; g.Name = helper.StringToPtr(n)\<close>.\<close>

definition newTaskGroup :: "string \<Rightarrow> TaskGroup" where
  "newTaskGroup n =
     \<lparr>Name = Some n, Count = None, Constraints = [], Affinities = [], Tasks = [], Spreads = [],
      RestartPolicy = None, ReschedulePolicy = None, EphemeralDisk = None, Update = None,
      Migrate = None, Meta = Map.empty\<rparr>"

definition group_valid :: "string list" where
  "group_valid =
     [''count'', ''constraint'', ''affinity'', ''restart'', ''meta'', ''task'',
      ''ephemeral_disk'', ''update'', ''reschedule'', ''vault'', ''migrate'', ''spread'']"

text \<open>
  The basic decode of a group: after the key check and the deletions the map can hold
  count and reschedule, and no field of the group is read from a key \<^verbatim>\<open>reschedule\<close>.
\<close>

definition decodeTaskGroup :: "lib \<Rightarrow> attrs \<Rightarrow> TaskGroup \<Rightarrow> error + TaskGroup" where
  "decodeTaskGroup L m g =
     bindE (fieldPtr m ''count'' (weakInt L) (Count g)) (\<lambda>c. Inr (g\<lparr>Count := c\<rparr>))"

text \<open>The push-down of a vault configuration into the tasks that have none.\<close>

definition setVault :: "Vault \<Rightarrow> Task \<Rightarrow> Task" where
  "setVault v task = (if Task.Vault task = None then task\<lparr>Task.Vault := Some v\<rparr> else task)"

text \<open>
  The body of the loop of \<^verbatim>\<open>parseGroups\<close> for the group named \<open>n\<close>, from the key check
  on. \<open>jobName\<close> is \<^verbatim>\<open>result.Name\<close>, dereferenced where the tasks are parsed.
\<close>

definition parseGroup :: "lib \<Rightarrow> string option \<Rightarrow> string \<Rightarrow> ObjectItem \<Rightarrow> ObjectList \<Rightarrow> error + TaskGroup" where
  "parseGroup L jobName n item listVal =
     bindE (prefixE (quoted n @ '' ->'') (CheckHCLKeys_list listVal group_valid)) (\<lambda>_.
     bindE (DecodeObject L (Val item)) (\<lambda>m0.
     bindE (decodeTaskGroup L
              (m0(''constraint'' := None, ''affinity'' := None, ''meta'' := None,
                  ''task'' := None, ''restart'' := None, ''ephemeral_disk'' := None,
                  ''update'' := None, ''vault'' := None, ''migrate'' := None,
                  ''spread'' := None))
              (newTaskGroup n)) (\<lambda>g.
     bindE (let bs = Filter listVal ''constraint'' in
            if bs = [] then Inr (Constraints g)
            else prefixE (quoted n @ '', constraint ->'')
                   (parseConstraints L (Constraints g) bs)) (\<lambda>constraints.
     bindE (let bs = Filter listVal ''affinity'' in
            if bs = [] then Inr (Affinities g)
            else prefixE (quoted n @ '', affinity ->'')
                   (parseAffinities L (Affinities g) bs)) (\<lambda>affinities.
     bindE (let bs = Filter listVal ''restart'' in
            if bs = [] then Inr (RestartPolicy g)
            else bindE (prefixE (quoted n @ '', restart ->'') (parseRestartPolicy L bs))
                   (\<lambda>r. Inr (Some r))) (\<lambda>restart.
     bindE (let bs = Filter listVal ''spread'' in
            if bs = [] then Inr (Spreads g)
            else prefixE ''spread ->'' (parseSpread L (Spreads g) bs)) (\<lambda>spreads.
     bindE (let bs = Filter listVal ''reschedule'' in
            if bs = [] then Inr (ReschedulePolicy g)
            else bindE (prefixE (quoted n @ '', reschedule ->'') (parseReschedulePolicy L bs))
                   (\<lambda>r. Inr (Some r))) (\<lambda>reschedule.
     bindE (let bs = Filter listVal ''ephemeral_disk'' in
            if bs = [] then Inr (EphemeralDisk g)
            else bindE (prefixE (quoted n @ '', ephemeral_disk ->'') (parseEphemeralDisk L bs))
                   (\<lambda>d. Inr (Some d))) (\<lambda>disk.
     bindE (let bs = Filter listVal ''update'' in
            if bs = [] then Inr (Update g)
            else bindE (prefixE ''update ->'' (parseUpdate L bs)) (\<lambda>u. Inr (Some u))) (\<lambda>update.
     bindE (let bs = Filter listVal ''migrate'' in
            if bs = [] then Inr (Migrate g)
            else bindE (prefixE ''migrate ->'' (parseMigrate L bs)) (\<lambda>u. Inr (Some u))) (\<lambda>migrate.
     bindE (let metaO = Filter listVal ''meta'' in
            if metaO = [] then Inr (Meta g) else mergeStringMaps L (Meta g) (Elem metaO)) (\<lambda>meta.
     bindE (let bs = Filter listVal ''task'' in
            if bs = [] then Inr (Tasks g)
            else (case jobName of
                    None \<Rightarrow> Inl Panic
                  | Some jn \<Rightarrow>
                      prefixE (quoted n @ '', task:'') (parseTasks L jn n (Tasks g) bs))) (\<lambda>tasks.
     bindE (let bs = Filter listVal ''vault'' in
            if bs = [] then Inr tasks
            else bindE (prefixE (quoted n @ '', vault ->'') (parseVault L defaultVault bs))
                   (\<lambda>tgVault. Inr (map (setVault tgVault) tasks))) (\<lambda>tasks'.
       Inr (g\<lparr>Constraints := constraints, Affinities := affinities, RestartPolicy := restart,
               Spreads := spreads, ReschedulePolicy := reschedule, EphemeralDisk := disk,
               Update := update, Migrate := migrate, Meta := meta, Tasks := tasks'\<rparr>)))))))))))))))"

text \<open>
  The loop of \<^verbatim>\<open>parseGroups\<close>: \<open>seen\<close> starts empty and holds the names of the group blocks
  met so far; \<open>collection\<close> is returned to be appended to the job's task groups.
\<close>

fun parseGroups_loop :: "lib \<Rightarrow> string option \<Rightarrow> string set \<Rightarrow> TaskGroup list \<Rightarrow> ObjectList \<Rightarrow> error + TaskGroup list" where
  "parseGroups_loop L jobName seen collection [] = Inr collection"
| "parseGroups_loop L jobName seen collection (item # rest) =
     (case Keys item of
        [] \<Rightarrow> Inl Panic
      | n # ks \<Rightarrow>
          if n \<in> seen then Inl (Error (''group '' @ quoted n @ '' defined more than once''))
          else
            (case Val item of
               ObjectType listVal \<Rightarrow>
                 bindE (parseGroup L jobName n item listVal) (\<lambda>g.
                   parseGroups_loop L jobName (insert n seen) (collection @ [g]) rest)
             | _ \<Rightarrow> Inl (Error (''group '' @ quoted n @ '': should be an object''))))"

text \<open>\<^verbatim>\<open>parseGroups(result, list)\<close>, returning the job's new list of task groups.\<close>

definition parseGroups :: "lib \<Rightarrow> string option \<Rightarrow> TaskGroup list \<Rightarrow> ObjectList \<Rightarrow> error + TaskGroup list" where
  "parseGroups L jobName taskGroups list0 =
     (let list = Children list0 in
      if list = [] then Inr taskGroups
      else bindE (parseGroups_loop L jobName {} [] list) (\<lambda>collection.
             Inr (taskGroups @ collection)))"

section \<open>The job\<close>

record Job =
  Region :: "string option"
  Namespace :: "string option"
  ID :: "string option"
  Name :: "string option"
  Type :: "string option"
  Priority :: "int option"
  AllAtOnce :: "bool option"
  Datacenters :: "string list"
  Constraints :: "Constraint list"
  Affinities :: "Affinity list"
  TaskGroups :: "TaskGroup list"
  Update :: "attrs option"
  Spreads :: "Spread list"
  Periodic :: "attrs option"
  ParameterizedJob :: "attrs option"
  Reschedule :: "attrs option"
  Migrate :: "attrs option"
  Meta :: "string \<rightharpoonup> string"
  VaultToken :: "string option"

text \<open>\<^verbatim>\<open>var job api.Job\<close>, with ID and name set to the key of the job block.\<close>

definition newJob :: "string \<Rightarrow> Job" where
  "newJob n =
     \<lparr>Region = None, Namespace = None, ID = Some n, Name = Some n, Type = None, Priority = None,
      AllAtOnce = None, Datacenters = [], Constraints = [], Affinities = [], TaskGroups = [],
      Update = None, Spreads = [], Periodic = None, ParameterizedJob = None, Reschedule = None,
      Migrate = None, Meta = Map.empty, VaultToken = None\<rparr>"

definition job_valid :: "string list" where
  "job_valid =
     [''all_at_once'', ''constraint'', ''affinity'', ''spread'', ''datacenters'', ''group'',
      ''id'', ''meta'', ''migrate'', ''name'', ''namespace'', ''parameterized'', ''periodic'',
      ''priority'', ''region'', ''reschedule'', ''task'', ''type'', ''update'', ''vault'',
      ''vault_token'']"

text \<open>
  \<^verbatim>\<open>mapstructure.WeakDecode(m, result)\<close> for the job's own attributes. The decode runs
  before the key check; the model reads the whitelisted attributes and leaves any other
  key to that check, which refuses it.
\<close>

definition decodeJob :: "lib \<Rightarrow> attrs \<Rightarrow> Job \<Rightarrow> error + Job" where
  "decodeJob L m j =
     bindE (fieldPtr m ''region'' weakString (Region j)) (\<lambda>region.
     bindE (fieldPtr m ''namespace'' weakString (Namespace j)) (\<lambda>namespace.
     bindE (fieldPtr m ''id'' weakString (ID j)) (\<lambda>id.
     bindE (fieldPtr m ''name'' weakString (Job.Name j)) (\<lambda>name.
     bindE (fieldPtr m ''type'' weakString (Type j)) (\<lambda>type.
     bindE (fieldPtr m ''priority'' (weakInt L) (Priority j)) (\<lambda>priority.
     bindE (fieldPtr m ''all_at_once'' weakBool (AllAtOnce j)) (\<lambda>allAtOnce.
     bindE (field m ''datacenters'' weakStrings (Datacenters j)) (\<lambda>datacenters.
     bindE (fieldPtr m ''vault_token'' weakString (VaultToken j)) (\<lambda>vaultToken.
       Inr (j\<lparr>Region := region, Namespace := namespace, ID := id, Job.Name := name,
               Type := type, Priority := priority, AllAtOnce := allAtOnce,
               Datacenters := datacenters, VaultToken := vaultToken\<rparr>))))))))))"

text \<open>A bare task of the job becomes a group of its own, named after the task.\<close>

definition taskGroupOf :: "Task \<Rightarrow> TaskGroup" where
  "taskGroupOf t = (newTaskGroup (Task.Name t))\<lparr>Tasks := [t]\<rparr>"

definition setVaultGroup :: "Vault \<Rightarrow> TaskGroup \<Rightarrow> TaskGroup" where
  "setVaultGroup v tg = tg\<lparr>Tasks := map (setVault v) (Tasks tg)\<rparr>"

text \<open>The body of \<^verbatim>\<open>parseJob\<close> once the job block \<open>obj\<close> is found, from the decode on.\<close>

definition parseJobBlock :: "lib \<Rightarrow> string \<Rightarrow> ObjectItem \<Rightarrow> error + Job" where
  "parseJobBlock L key obj =
     bindE (DecodeObject L (Val obj)) (\<lambda>m0.
     bindE (decodeJob L
              (m0(''constraint'' := None, ''affinity'' := None, ''meta'' := None,
                  ''migrate'' := None, ''parameterized'' := None, ''periodic'' := None,
                  ''reschedule'' := None, ''update'' := None, ''vault'' := None,
                  ''spread'' := None))
              (newJob key)) (\<lambda>result.
       case Val obj of
         ObjectType listVal \<Rightarrow>
           bindE (prefixE ''job:'' (CheckHCLKeys_list listVal job_valid)) (\<lambda>_.
           bindE (let bs = Filter listVal ''constraint'' in
                  if bs = [] then Inr (Job.Constraints result)
                  else prefixE ''constraint ->''
                         (parseConstraints L (Job.Constraints result) bs)) (\<lambda>constraints.
           bindE (let bs = Filter listVal ''affinity'' in
                  if bs = [] then Inr (Job.Affinities result)
                  else prefixE ''affinity ->''
                         (parseAffinities L (Job.Affinities result) bs)) (\<lambda>affinities.
           bindE (let bs = Filter listVal ''update'' in
                  if bs = [] then Inr (Job.Update result)
                  else bindE (prefixE ''update ->'' (parseUpdate L bs))
                         (\<lambda>u. Inr (Some u))) (\<lambda>update.
           bindE (let bs = Filter listVal ''periodic'' in
                  if bs = [] then Inr (Periodic result)
                  else bindE (prefixE ''periodic ->'' (parsePeriodic L bs))
                         (\<lambda>p. Inr (Some p))) (\<lambda>periodic.
           bindE (let bs = Filter listVal ''spread'' in
                  if bs = [] then Inr (Job.Spreads result)
                  else prefixE ''spread ->'' (parseSpread L (Job.Spreads result) bs)) (\<lambda>spreads.
           bindE (let bs = Filter listVal ''parameterized'' in
                  if bs = [] then Inr (ParameterizedJob result)
                  else bindE (prefixE ''parameterized ->'' (parseParameterizedJob L bs))
                         (\<lambda>p. Inr (Some p))) (\<lambda>parameterized.
           bindE (let bs = Filter listVal ''reschedule'' in
                  if bs = [] then Inr (Reschedule result)
                  else bindE (prefixE ''reschedule ->'' (parseReschedulePolicy L bs))
                         (\<lambda>r. Inr (Some r))) (\<lambda>reschedule.
           bindE (let bs = Filter listVal ''migrate'' in
                  if bs = [] then Inr (Job.Migrate result)
                  else bindE (prefixE ''migrate ->'' (parseMigrate L bs))
                         (\<lambda>u. Inr (Some u))) (\<lambda>migrate.
           bindE (let metaO = Filter listVal ''meta'' in
                  if metaO = [] then Inr (Job.Meta result)
                  else mergeStringMaps L (Job.Meta result) (Elem metaO)) (\<lambda>meta.
           bindE (let bs = Filter listVal ''task'' in
                  if bs = [] then Inr (TaskGroups result)
                  else (case Job.Name result of
                          None \<Rightarrow> Inl Panic
                        | Some jn \<Rightarrow>
                            bindE (prefixE ''task:'' (parseTasks L jn [] [] bs)) (\<lambda>tasks.
                              Inr (map taskGroupOf tasks)))) (\<lambda>taskGroups.
           bindE (let bs = Filter listVal ''group'' in
                  if bs = [] then Inr taskGroups
                  else prefixE ''group:''
                         (parseGroups L (Job.Name result) taskGroups bs)) (\<lambda>taskGroups'.
           bindE (let bs = Filter listVal ''vault'' in
                  if bs = [] then Inr taskGroups'
                  else bindE (prefixE ''vault ->'' (parseVault L defaultVault bs))
                         (\<lambda>jobVault. Inr (map (setVaultGroup jobVault) taskGroups'))) (\<lambda>taskGroups''.
             Inr (result\<lparr>Job.Constraints := constraints, Job.Affinities := affinities,
                         Job.Update := update, Periodic := periodic, Job.Spreads := spreads,
                         ParameterizedJob := parameterized, Reschedule := reschedule,
                         Job.Migrate := migrate, Job.Meta := meta,
                         TaskGroups := taskGroups''\<rparr>))))))))))))))
       | _ \<Rightarrow>
           Inl (Error (''job '' @ quoted (case ID result of None \<Rightarrow> [] | Some i \<Rightarrow> i) @
                       '' value: should be an object''))))"

definition parseJob :: "lib \<Rightarrow> ObjectList \<Rightarrow> error + Job" where
  "parseJob L list0 =
     (if length list0 \<noteq> 1 then
        Inl (Error (''only one '' @ quoted ''job'' @ '' block allowed''))
      else
        case Children list0 of
          [obj] \<Rightarrow>
            (case Keys obj of
               [] \<Rightarrow> Inl Panic
             | key # ks \<Rightarrow> parseJobBlock L key obj)
        | _ \<Rightarrow> Inl (Error (quoted ''job'' @ '' block missing name'')))"

text \<open>
  \<^verbatim>\<open>Parse\<close>, from the root object list that the tokenizer returns: the only root key is
  \<^verbatim>\<open>job\<close>, and an error of \<open>parseJob\<close> is wrapped.
\<close>

definition Parse :: "lib \<Rightarrow> ObjectList \<Rightarrow> error + Job" where
  "Parse L root =
     bindE (CheckHCLKeys_list root [''job'']) (\<lambda>_.
       let matches = Filter root ''job'' in
       if matches = [] then Inl (Error (quoted ''job'' @ '' stanza not found''))
       else (case parseJob L matches of
               Inl err \<Rightarrow> Inl (Errorf (''error parsing '' @ quoted ''job'' @ '': '') err)
             | Inr job \<Rightarrow> Inr job))"

section \<open>Notions used to state the properties\<close>

text \<open>
  The port that one \<^verbatim>\<open>port\<close> block declares: the part of the loop body of \<^verbatim>\<open>parsePorts\<close> that
  decodes the block and sets the label (lines 1563 to 1571).
\<close>

definition declaredPort :: "lib \<Rightarrow> ObjectItem \<Rightarrow> error + Port" where
  "declaredPort L port =
     (case Keys port of
        [] \<Rightarrow> Inl (Error ''ports must be named'')
      | label # ks \<Rightarrow>
          bindE (DecodeObject L (Val port)) (\<lambda>p.
          bindE (decodePort L p) (\<lambda>res. Inr (res\<lparr>Label := label\<rparr>))))"

text \<open>The folded labels of a list of port blocks: what the loop has put into \<^verbatim>\<open>knownPortLabels\<close>.\<close>

definition lowerLabels :: "ObjectList \<Rightarrow> string set" where
  "lowerLabels ports = {ToLower label |label ks v. (label # ks, v) \<in> set ports}"

text \<open>The names of a list of task or group blocks: what the loops have put into \<^verbatim>\<open>seen\<close>.\<close>

definition blockNames :: "ObjectList \<Rightarrow> string set" where
  "blockNames items = {n |n ks v. (n # ks, v) \<in> set items}"

text \<open>
  The vault configuration in force for a block: the one its own vault blocks resolve to
  (over the defaults, as every caller of \<open>parseVault\<close> does), and the inherited one when it
  has no vault block.
\<close>

definition blockVault :: "lib \<Rightarrow> ObjectList \<Rightarrow> Vault option \<Rightarrow> error + Vault option" where
  "blockVault L body inherited =
     (if Filter body ''vault'' = [] then Inr inherited
      else bindE (parseVault L defaultVault (Filter body ''vault'')) (\<lambda>v. Inr (Some v)))"

text \<open>A task of the result against the task block it comes from, given what it inherits.\<close>

definition taskVaultSpec :: "lib \<Rightarrow> Vault option \<Rightarrow> ObjectItem \<Rightarrow> Task \<Rightarrow> bool" where
  "taskVaultSpec L inherited item t =
     (case item of
        (n # ks, ObjectType body) \<Rightarrow>
          Task.Name t = n \<and> blockVault L body inherited = Inr (Task.Vault t)
      | _ \<Rightarrow> False)"

text \<open>
  A group of the result against the group block it comes from: its tasks inherit the
  group's own vault configuration when the group has a vault block, and otherwise what the
  group inherits from the job.
\<close>

definition groupVaultSpec :: "lib \<Rightarrow> Vault option \<Rightarrow> ObjectItem \<Rightarrow> TaskGroup \<Rightarrow> bool" where
  "groupVaultSpec L inherited item g =
     (case item of
        (n # ks, ObjectType body) \<Rightarrow>
          TaskGroup.Name g = Some n \<and>
          (case blockVault L body inherited of
             Inr own \<Rightarrow> list_all2 (taskVaultSpec L own) (Children (Filter body ''task'')) (Tasks g)
           | Inl e \<Rightarrow> False)
      | _ \<Rightarrow> False)"

text \<open>A group synthesized from a bare task of the job: it holds that task alone.\<close>

definition bareTaskSpec :: "lib \<Rightarrow> Vault option \<Rightarrow> ObjectItem \<Rightarrow> TaskGroup \<Rightarrow> bool" where
  "bareTaskSpec L inherited item g =
     (case Tasks g of
        [t] \<Rightarrow> TaskGroup.Name g = Some (Task.Name t) \<and> taskVaultSpec L inherited item t
      | _ \<Rightarrow> False)"

section \<open>An instance of the library parameters\<close>

text \<open>
  The concrete trees of the examples are evaluated with this instance: integers are read
  from decimal strings, no string is a duration, the value of a port is its \<^verbatim>\<open>static\<close>
  attribute, and a struct that no claim reads is decoded by overriding its fields with the
  attributes.
\<close>

fun parseDigits :: "nat \<Rightarrow> string \<Rightarrow> nat option" where
  "parseDigits acc [] = Some acc"
| "parseDigits acc (c # cs) =
     (case map_of (zip ''0123456789'' [0, 1, 2, 3, 4, 5, 6, 7, 8, 9]) c of
        None \<Rightarrow> None
      | Some d \<Rightarrow> parseDigits (acc * 10 + d) cs)"

definition parseDecimal :: "string \<Rightarrow> int option" where
  "parseDecimal s =
     (case s of
        [] \<Rightarrow> None
      | c # cs \<Rightarrow>
          if c = CHR ''-'' then (if cs = [] then None else map_option (\<lambda>n. - int n) (parseDigits 0 cs))
          else map_option int (parseDigits 0 s))"

definition L0 :: lib where
  "L0 = \<lparr>ParseInt = parseDecimal, ParseDuration = (\<lambda>s. None), PortValueKey = ''static'',
          WeakDecodeStruct = (\<lambda>name cur m. Inr (cur ++ m))\<rparr>"

section \<open>Basic facts about the error monad\<close>

lemma bindE_Inl [simp]: "bindE (Inl e) f = Inl e"
  by (simp add: bindE_def)

lemma bindE_Inr [simp]: "bindE (Inr v) f = f v"
  by (simp add: bindE_def)

lemma bindE_eq_Inr: "bindE x f = Inr y \<longleftrightarrow> (\<exists>v. x = Inr v \<and> f v = Inr y)"
  by (cases x) simp_all

lemma prefixE_Inl [simp]: "prefixE p (Inl e) = Inl (Prefix e p)"
  by (simp add: prefixE_def)

lemma prefixE_Inr [simp]: "prefixE p (Inr v) = Inr v"
  by (simp add: prefixE_def)


lemma bindE_assoc [simp]: "bindE (bindE x f) g = bindE x (\<lambda>v. bindE (f v) g)"
  by (cases x) simp_all

text \<open>
  The continuation of a bind is simplified only once its first argument is a value: the
  parsers are long chains of binds, and rewriting under every continuation is exponential.
\<close>

lemma bindE_weak_cong: "x = y \<Longrightarrow> bindE x f = bindE y f"
  by simp

text \<open>Case folding of the characters that occur in block keys, for evaluating \<open>Filter\<close>.\<close>

lemma toLowerChar_ascii:
  "toLowerChar CHR ''a'' = CHR ''a'' \<and> toLowerChar CHR ''b'' = CHR ''b'' \<and>
   toLowerChar CHR ''c'' = CHR ''c'' \<and> toLowerChar CHR ''d'' = CHR ''d'' \<and>
   toLowerChar CHR ''e'' = CHR ''e'' \<and> toLowerChar CHR ''f'' = CHR ''f'' \<and>
   toLowerChar CHR ''g'' = CHR ''g'' \<and> toLowerChar CHR ''h'' = CHR ''h'' \<and>
   toLowerChar CHR ''i'' = CHR ''i'' \<and> toLowerChar CHR ''j'' = CHR ''j'' \<and>
   toLowerChar CHR ''k'' = CHR ''k'' \<and> toLowerChar CHR ''l'' = CHR ''l'' \<and>
   toLowerChar CHR ''m'' = CHR ''m'' \<and> toLowerChar CHR ''n'' = CHR ''n'' \<and>
   toLowerChar CHR ''o'' = CHR ''o'' \<and> toLowerChar CHR ''p'' = CHR ''p'' \<and>
   toLowerChar CHR ''q'' = CHR ''q'' \<and> toLowerChar CHR ''r'' = CHR ''r'' \<and>
   toLowerChar CHR ''s'' = CHR ''s'' \<and> toLowerChar CHR ''t'' = CHR ''t'' \<and>
   toLowerChar CHR ''u'' = CHR ''u'' \<and> toLowerChar CHR ''v'' = CHR ''v'' \<and>
   toLowerChar CHR ''w'' = CHR ''w'' \<and> toLowerChar CHR ''x'' = CHR ''x'' \<and>
   toLowerChar CHR ''y'' = CHR ''y'' \<and> toLowerChar CHR ''z'' = CHR ''z'' \<and>
   toLowerChar CHR ''A'' = CHR ''a'' \<and> toLowerChar CHR ''B'' = CHR ''b'' \<and>
   toLowerChar CHR ''C'' = CHR ''c'' \<and> toLowerChar CHR ''D'' = CHR ''d'' \<and>
   toLowerChar CHR ''E'' = CHR ''e'' \<and> toLowerChar CHR ''F'' = CHR ''f'' \<and>
   toLowerChar CHR ''G'' = CHR ''g'' \<and> toLowerChar CHR ''H'' = CHR ''h'' \<and>
   toLowerChar CHR ''I'' = CHR ''i'' \<and> toLowerChar CHR ''J'' = CHR ''j'' \<and>
   toLowerChar CHR ''K'' = CHR ''k'' \<and> toLowerChar CHR ''L'' = CHR ''l'' \<and>
   toLowerChar CHR ''M'' = CHR ''m'' \<and> toLowerChar CHR ''N'' = CHR ''n'' \<and>
   toLowerChar CHR ''O'' = CHR ''o'' \<and> toLowerChar CHR ''P'' = CHR ''p'' \<and>
   toLowerChar CHR ''Q'' = CHR ''q'' \<and> toLowerChar CHR ''R'' = CHR ''r'' \<and>
   toLowerChar CHR ''S'' = CHR ''s'' \<and> toLowerChar CHR ''T'' = CHR ''t'' \<and>
   toLowerChar CHR ''U'' = CHR ''u'' \<and> toLowerChar CHR ''V'' = CHR ''v'' \<and>
   toLowerChar CHR ''W'' = CHR ''w'' \<and> toLowerChar CHR ''X'' = CHR ''x'' \<and>
   toLowerChar CHR ''Y'' = CHR ''y'' \<and> toLowerChar CHR ''Z'' = CHR ''z'' \<and>
   toLowerChar CHR ''0'' = CHR ''0'' \<and> toLowerChar CHR ''1'' = CHR ''1'' \<and>
   toLowerChar CHR ''2'' = CHR ''2'' \<and> toLowerChar CHR ''3'' = CHR ''3'' \<and>
   toLowerChar CHR ''4'' = CHR ''4'' \<and> toLowerChar CHR ''5'' = CHR ''5'' \<and>
   toLowerChar CHR ''6'' = CHR ''6'' \<and> toLowerChar CHR ''7'' = CHR ''7'' \<and>
   toLowerChar CHR ''8'' = CHR ''8'' \<and> toLowerChar CHR ''9'' = CHR ''9'' \<and>
   toLowerChar CHR ''_'' = CHR ''_''"
  by code_simp

lemmas fold_simps = EqualFold_def ToLower_def toLowerChar_ascii

section \<open>Constraints: aliases, distinct_hosts and the default operand\<close>

lemmas operand_defs = ConstraintVersion_def ConstraintRegex_def ConstraintSetContains_def
  ConstraintSetContainsAny_def ConstraintSetContainsAll_def ConstraintDistinctHosts_def
  ConstraintDistinctProperty_def

lemma setAlias_other:
  "k \<noteq> ''RTarget'' \<Longrightarrow> k \<noteq> ''Operand'' \<Longrightarrow> setAlias key m k = m k"
  by (simp add: setAlias_def split: option.splits)

lemma setAlias_None: "m key = None \<Longrightarrow> setAlias key m = m"
  by (simp add: setAlias_def)

text \<open>
  Once the keys are checked and the entry is decoded, \<open>parseConstraint\<close> branches on the
  entry's own distinct_hosts attribute: no alias assigns that key.
\<close>

lemma parseConstraint_decoded:
  assumes "CheckHCLKeys (Val obj) constraint_valid = Inr ()"
      and "DecodeObject L (Val obj) = Inr m0"
  shows "parseConstraint L obj =
       (let m1 = m0(''LTarget'' := m0 ''attribute'');
            m2 = m1(''RTarget'' := m1 ''value'');
            m3 = m2(''Operand'' := m2 ''operator'');
            m4 = setAlias ConstraintVersion m3;
            m5 = setAlias ConstraintRegex m4;
            m = setAlias ConstraintSetContains m5
        in case m0 ''distinct_hosts'' of
             Some v \<Rightarrow>
               (case parseBool v of
                  Inl err \<Rightarrow>
                    Inl (Errorf ''distinct_hosts should be set to true or false; '' err)
                | Inr enabled \<Rightarrow>
                    if \<not> enabled then Inr None
                    else bindE (buildConstraint (m(''Operand'' \<mapsto> HString ConstraintDistinctHosts)))
                           (\<lambda>c. Inr (Some c)))
           | None \<Rightarrow> bindE (buildConstraint m) (\<lambda>c. Inr (Some c)))"
  using assms by (simp add: parseConstraint_def Let_def setAlias_other ConstraintDistinctHosts_def)

lemma buildConstraint_Operand:
  assumes "m ''distinct_property'' = None" and "m ''Operand'' = Some (HString op)"
      and "buildConstraint m = Inr c"
  shows "Operand c = (if op = [] then ''='' else op)"
  using assms
  by (auto simp: buildConstraint_def ConstraintDistinctProperty_def decodeConstraint_def
      field_def weakString_def bindE_eq_Inr)

lemma buildConstraint_no_Operand:
  assumes "m ''distinct_property'' = None" and "m ''Operand'' = None"
      and "buildConstraint m = Inr c"
  shows "Operand c = ''=''"
  using assms
  by (auto simp: buildConstraint_def ConstraintDistinctProperty_def decodeConstraint_def
      field_def bindE_eq_Inr)

lemma distinct_hosts_disabled:
  assumes "CheckHCLKeys (Val obj) constraint_valid = Inr ()"
      and "DecodeObject L (Val obj) = Inr m"
      and "m ''distinct_hosts'' = Some (HString ''false'') \<or> m ''distinct_hosts'' = Some (HBool False)"
  shows "parseConstraint L obj = Inr None"
proof -
  from assms(3) obtain v where v: "m ''distinct_hosts'' = Some v" "parseBool v = Inr False"
    by (auto simp: parseBool_def ParseBool_def)
  show ?thesis
    by (simp add: parseConstraint_decoded[OF assms(1,2)] Let_def v)
qed

lemma distinct_hosts_enabled:
  assumes "CheckHCLKeys (Val obj) constraint_valid = Inr ()"
      and "DecodeObject L (Val obj) = Inr m"
      and "m ''distinct_hosts'' = Some v" and "parseBool v = Inr True"
      and "m ''distinct_property'' = None"
  shows "parseConstraint L obj \<noteq> Inr None"
    and "parseConstraint L obj = Inr (Some c) \<Longrightarrow> Operand c = ''distinct_hosts''"
proof -
  define mm where "mm = (setAlias ConstraintSetContains (setAlias ConstraintRegex
      (setAlias ConstraintVersion (m(''LTarget'' := m ''attribute'', ''RTarget'' := m ''value'',
         ''Operand'' := m ''operator'')))))(''Operand'' \<mapsto> HString ConstraintDistinctHosts)"
  have p: "parseConstraint L obj = bindE (buildConstraint mm) (\<lambda>c. Inr (Some c))"
    by (simp add: parseConstraint_decoded[OF assms(1,2)] Let_def assms(3,4) mm_def)
  have dp: "mm ''distinct_property'' = None"
    by (simp add: mm_def setAlias_other assms(5))
  have op: "mm ''Operand'' = Some (HString ''distinct_hosts'')"
    by (simp add: mm_def ConstraintDistinctHosts_def)
  show "parseConstraint L obj \<noteq> Inr None"
    by (auto simp: p bindE_eq_Inr)
  show "parseConstraint L obj = Inr (Some c) \<Longrightarrow> Operand c = ''distinct_hosts''"
    using buildConstraint_Operand[OF dp op] by (auto simp: p bindE_eq_Inr)
qed

lemma distinct_hosts_only:
  assumes "CheckHCLKeys (Val obj) constraint_valid = Inr ()"
      and "DecodeObject L (Val obj) = Inr m"
      and "m ''distinct_hosts'' = Some v" and "parseBool v = Inr True"
      and "m ''distinct_property'' = None"
      and "m ''attribute'' = None" "m ''value'' = None" "m ''version'' = None"
          "m ''regexp'' = None" "m ''set_contains'' = None"
  shows "parseConstraint L obj =
           Inr (Some \<lparr>LTarget = [], RTarget = [], Operand = ''distinct_hosts''\<rparr>)"
  by (simp add: parseConstraint_decoded[OF assms(1,2)] Let_def assms setAlias_None
      buildConstraint_def decodeConstraint_def field_def weakString_def operand_defs)

lemma distinct_hosts_not_boolean:
  assumes "CheckHCLKeys (Val obj) constraint_valid = Inr ()"
      and "DecodeObject L (Val obj) = Inr m"
      and "m ''distinct_hosts'' = Some v" and "\<forall>b. v \<noteq> HBool b"
      and "\<forall>s. v = HString s \<longrightarrow> ParseBool s = None"
  shows "\<exists>msg. parseConstraint L obj = Inl (Error msg)"
proof -
  from assms(4,5) obtain t where "parseBool v = Inl (Error t)"
    by (cases v) (auto simp: parseBool_def)
  then show ?thesis
    by (simp add: parseConstraint_decoded[OF assms(1,2)] Let_def assms(3))
qed
lemma version_alias:
  assumes "CheckHCLKeys (Val obj) constraint_valid = Inr ()"
      and "DecodeObject L (Val obj) = Inr m"
      and "m ''version'' = Some (HString v)"
      and "m ''regexp'' = None" "m ''set_contains'' = None" "m ''distinct_hosts'' = None"
          "m ''distinct_property'' = None"
  shows "parseConstraint L obj = bindE (field m ''attribute'' weakString [])
      (\<lambda>l. Inr (Some \<lparr>LTarget = l, RTarget = v, Operand = ''version''\<rparr>))"
  by (simp add: parseConstraint_decoded[OF assms(1,2)] Let_def assms setAlias_None
      buildConstraint_def decodeConstraint_def field_def weakString_def operand_defs
      setAlias_def split: option.splits)

lemma constraint_default_operand:
  assumes "CheckHCLKeys (Val obj) constraint_valid = Inr ()"
      and "DecodeObject L (Val obj) = Inr m"
      and "m ''operator'' = None" "m ''version'' = None"
      and "m ''regexp'' = None" "m ''set_contains'' = None" "m ''distinct_hosts'' = None"
          "m ''distinct_property'' = None"
  shows "parseConstraint L obj = bindE (field m ''attribute'' weakString []) (\<lambda>l.
           bindE (field m ''value'' weakString []) (\<lambda>r.
             Inr (Some \<lparr>LTarget = l, RTarget = r, Operand = ''=''\<rparr>)))"
  by (simp add: parseConstraint_decoded[OF assms(1,2)] Let_def assms setAlias_None
      buildConstraint_def decodeConstraint_def field_def operand_defs
      split: option.splits)

lemma affinity_default_operand:
  assumes "CheckHCLKeys (Val obj) affinity_valid = Inr ()"
      and "DecodeObject L (Val obj) = Inr m"
      and "m ''operator'' = None" "m ''version'' = None"
      and "m ''regexp'' = None" "m ''set_contains'' = None" "m ''set_contains_any'' = None"
          "m ''set_contains_all'' = None"
  shows "parseAffinity L obj = bindE (field m ''attribute'' weakString []) (\<lambda>l.
           bindE (field m ''value'' weakString []) (\<lambda>r.
           bindE (field m ''weight'' (weakInt8 L) 0) (\<lambda>w.
             Inr \<lparr>LTarget = l, RTarget = r, Operand = ''='', Weight = w\<rparr>)))"
  by (simp add: parseAffinity_def Let_def assms setAlias_None
      decodeAffinity_def field_def operand_defs
      split: option.splits)

lemmas constraint_eval = parseConstraint_def constraint_valid_def decodeLiteral_def setAlias_def
  operand_defs parseBool_def ParseBool_def buildConstraint_def decodeConstraint_def field_def
  weakString_def

lemma distinct_hosts_closed:
  assumes "CheckHCLKeys (Val obj) constraint_valid = Inr ()"
      and "DecodeObject L (Val obj) = Inr m"
      and "m ''distinct_hosts'' = Some v" and "parseBool v = Inr True"
      and "m ''distinct_property'' = None"
  shows "parseConstraint L obj =
     bindE (field m ''attribute'' weakString []) (\<lambda>l.
     bindE (case (case m ''set_contains'' of
                    Some c \<Rightarrow> Some c
                  | None \<Rightarrow>
                      (case m ''regexp'' of
                         Some c \<Rightarrow> Some c
                       | None \<Rightarrow>
                           (case m ''version'' of Some c \<Rightarrow> Some c | None \<Rightarrow> m ''value''))) of
              None \<Rightarrow> Inr []
            | Some x \<Rightarrow> weakString x) (\<lambda>r.
       Inr (Some \<lparr>LTarget = l, RTarget = r, Operand = ''distinct_hosts''\<rparr>)))"
proof -
  define m3 where "m3 = m(''LTarget'' := m ''attribute'', ''RTarget'' := m ''value'',
         ''Operand'' := m ''operator'')"
  define mm where "mm = (setAlias ConstraintSetContains (setAlias ConstraintRegex
      (setAlias ConstraintVersion m3)))(''Operand'' \<mapsto> HString ConstraintDistinctHosts)"
  have p: "parseConstraint L obj = bindE (buildConstraint mm) (\<lambda>c. Inr (Some c))"
    by (simp add: parseConstraint_decoded[OF assms(1,2)] Let_def assms(3,4) mm_def m3_def)
  have dp: "mm ''distinct_property'' = None"
    by (simp add: mm_def m3_def setAlias_other assms(5))
  have op: "mm ''Operand'' = Some (HString ''distinct_hosts'')"
    by (simp add: mm_def ConstraintDistinctHosts_def)
  have lt: "mm ''LTarget'' = m ''attribute''"
    by (simp add: mm_def m3_def setAlias_other)
  have rt: "mm ''RTarget'' = (case m ''set_contains'' of
                    Some c \<Rightarrow> Some c
                  | None \<Rightarrow>
                      (case m ''regexp'' of
                         Some c \<Rightarrow> Some c
                       | None \<Rightarrow>
                           (case m ''version'' of Some c \<Rightarrow> Some c | None \<Rightarrow> m ''value'')))"
    by (simp add: mm_def m3_def setAlias_def operand_defs split: option.splits)
  have b: "buildConstraint mm =
     bindE (field m ''attribute'' weakString []) (\<lambda>l.
     bindE (case mm ''RTarget'' of None \<Rightarrow> Inr [] | Some x \<Rightarrow> weakString x) (\<lambda>r.
       Inr \<lparr>LTarget = l, RTarget = r, Operand = ''distinct_hosts''\<rparr>))"
    using dp op lt
    by (simp add: buildConstraint_def ConstraintDistinctProperty_def decodeConstraint_def
        field_def weakString_def)
  show ?thesis
    by (simp add: p b rt)
qed

text \<open>
  Claim C3, as the code has it. For a constraint entry whose keys are whitelisted and whose
  decoded attribute map holds distinct_hosts:
  \<^item> with the string \<^verbatim>\<open>"false"\<close> or the literal false, the entry is skipped: nothing is
    appended to the constraint list;
  \<^item> with a value that reads as true, and no distinct_property, the entry is not skipped
    and the result is the constraint with operand distinct_hosts, the decoded attribute as
    left target, and as right target what set_contains, regexp, version or the plain value
    supplies, the last alias present winning. So the right target is empty when the entry
    has none of value, version, regexp and set_contains, whatever its attribute is; and a
    plain value, with no alias beside it, is kept as the right target, not ignored;
  \<^item> with a value that is neither a boolean nor a string that \<^verbatim>\<open>strconv.ParseBool\<close>
    accepts, the parser returns an error.
\<close>

theorem C3_distinct_hosts:
  assumes "CheckHCLKeys (Val obj) constraint_valid = Inr ()"
      and "DecodeObject L (Val obj) = Inr m"
      and "m ''distinct_hosts'' = Some v"
  shows "(v = HString ''false'' \<or> v = HBool False \<longrightarrow>
            parseConstraint L obj = Inr None \<and>
            parseConstraints_loop L result (obj # rest) = parseConstraints_loop L result rest)
       \<and> (parseBool v = Inr True \<and> m ''distinct_property'' = None \<longrightarrow>
            parseConstraint L obj =
              bindE (field m ''attribute'' weakString []) (\<lambda>l.
              bindE (case (case m ''set_contains'' of
                             Some c \<Rightarrow> Some c
                           | None \<Rightarrow>
                               (case m ''regexp'' of
                                  Some c \<Rightarrow> Some c
                                | None \<Rightarrow>
                                    (case m ''version'' of
                                       Some c \<Rightarrow> Some c
                                     | None \<Rightarrow> m ''value''))) of
                       None \<Rightarrow> Inr []
                     | Some x \<Rightarrow> weakString x) (\<lambda>r.
                Inr (Some \<lparr>LTarget = l, RTarget = r, Operand = ''distinct_hosts''\<rparr>))) \<and>
            parseConstraint L obj \<noteq> Inr None \<and>
            (\<forall>c. parseConstraint L obj = Inr (Some c) \<longrightarrow> Operand c = ''distinct_hosts'') \<and>
            (m ''value'' = None \<and> m ''version'' = None \<and> m ''regexp'' = None \<and>
             m ''set_contains'' = None \<longrightarrow>
               parseConstraint L obj =
                 bindE (field m ''attribute'' weakString []) (\<lambda>l.
                   Inr (Some \<lparr>LTarget = l, RTarget = [], Operand = ''distinct_hosts''\<rparr>))) \<and>
            (\<forall>x. m ''value'' = Some (HString x) \<and> m ''version'' = None \<and> m ''regexp'' = None \<and>
                 m ''set_contains'' = None \<longrightarrow>
               parseConstraint L obj =
                 bindE (field m ''attribute'' weakString []) (\<lambda>l.
                   Inr (Some \<lparr>LTarget = l, RTarget = x, Operand = ''distinct_hosts''\<rparr>))))
       \<and> ((\<forall>b. v \<noteq> HBool b) \<and> (\<forall>s. v = HString s \<longrightarrow> ParseBool s = None) \<longrightarrow>
            (\<exists>msg. parseConstraint L obj = Inl (Error msg)))"
proof (intro conjI impI allI)
  assume f: "v = HString ''false'' \<or> v = HBool False"
  with assms(3) have "m ''distinct_hosts'' = Some (HString ''false'') \<or>
      m ''distinct_hosts'' = Some (HBool False)" by auto
  from distinct_hosts_disabled[OF assms(1,2) this]
  show "parseConstraint L obj = Inr None" .
  then show "parseConstraints_loop L result (obj # rest) = parseConstraints_loop L result rest"
    by simp
next
  assume t: "parseBool v = Inr True \<and> m ''distinct_property'' = None"
  then have t1: "parseBool v = Inr True" and t2: "m ''distinct_property'' = None" by simp_all
  note closed = distinct_hosts_closed[OF assms t1 t2]
  show "parseConstraint L obj =
              bindE (field m ''attribute'' weakString []) (\<lambda>l.
              bindE (case (case m ''set_contains'' of
                             Some c \<Rightarrow> Some c
                           | None \<Rightarrow>
                               (case m ''regexp'' of
                                  Some c \<Rightarrow> Some c
                                | None \<Rightarrow>
                                    (case m ''version'' of
                                       Some c \<Rightarrow> Some c
                                     | None \<Rightarrow> m ''value''))) of
                       None \<Rightarrow> Inr []
                     | Some x \<Rightarrow> weakString x) (\<lambda>r.
                Inr (Some \<lparr>LTarget = l, RTarget = r, Operand = ''distinct_hosts''\<rparr>)))"
    by (rule closed)
  show "parseConstraint L obj \<noteq> Inr None"
    by (rule distinct_hosts_enabled(1)[OF assms t1 t2])
  {
    fix c
    assume "parseConstraint L obj = Inr (Some c)"
    then show "Operand c = ''distinct_hosts''"
      by (rule distinct_hosts_enabled(2)[OF assms t1 t2])
  }
  {
    assume "m ''value'' = None \<and> m ''version'' = None \<and> m ''regexp'' = None \<and>
      m ''set_contains'' = None"
    then show "parseConstraint L obj =
        bindE (field m ''attribute'' weakString []) (\<lambda>l.
          Inr (Some \<lparr>LTarget = l, RTarget = [], Operand = ''distinct_hosts''\<rparr>))"
      by (simp add: closed)
  }
  {
    fix x
    assume "m ''value'' = Some (HString x) \<and> m ''version'' = None \<and> m ''regexp'' = None \<and>
      m ''set_contains'' = None"
    then show "parseConstraint L obj =
        bindE (field m ''attribute'' weakString []) (\<lambda>l.
          Inr (Some \<lparr>LTarget = l, RTarget = x, Operand = ''distinct_hosts''\<rparr>))"
      by (simp add: closed weakString_def)
  }
next
  assume "(\<forall>b. v \<noteq> HBool b) \<and> (\<forall>s. v = HString s \<longrightarrow> ParseBool s = None)"
  then show "\<exists>msg. parseConstraint L obj = Inl (Error msg)"
    using distinct_hosts_not_boolean[OF assms] by blast
qed

text \<open>
  The witness: \<^verbatim>\<open>distinct_hosts = "false"\<close>; \<^verbatim>\<open>distinct_hosts = true\<close> alone; with an attribute;
  with an attribute and a plain value; and \<^verbatim>\<open>distinct_hosts = 5\<close>.
\<close>

theorem C3_distinct_hosts_witness:
  "parseConstraint L0 ([], ObjectType [([''distinct_hosts''], LiteralType (LString ''false''))])
     = Inr None
   \<and> parseConstraint L0 ([], ObjectType [([''distinct_hosts''], LiteralType (LBool True))])
     = Inr (Some \<lparr>LTarget = [], RTarget = [], Operand = ''distinct_hosts''\<rparr>)
   \<and> parseConstraint L0 ([], ObjectType [([''distinct_hosts''], LiteralType (LBool True)),
                                        ([''attribute''], LiteralType (LString ''a''))])
     = Inr (Some \<lparr>LTarget = ''a'', RTarget = [], Operand = ''distinct_hosts''\<rparr>)
   \<and> parseConstraint L0 ([], ObjectType [([''distinct_hosts''], LiteralType (LBool True)),
                                        ([''attribute''], LiteralType (LString ''a'')),
                                        ([''value''], LiteralType (LString ''x''))])
     = Inr (Some \<lparr>LTarget = ''a'', RTarget = ''x'', Operand = ''distinct_hosts''\<rparr>)
   \<and> (\<exists>msg. parseConstraint L0 ([], ObjectType [([''distinct_hosts''], LiteralType (LNumber 5))])
          = Inl (Error msg))"
proof -
  let ?o1 = "([], ObjectType [([''distinct_hosts''], LiteralType (LString ''false''))])"
  let ?o2 = "([], ObjectType [([''distinct_hosts''], LiteralType (LBool True))])"
  let ?o3 = "([], ObjectType [([''distinct_hosts''], LiteralType (LNumber 5))])"
  let ?o4 = "([], ObjectType [([''distinct_hosts''], LiteralType (LBool True)),
                              ([''attribute''], LiteralType (LString ''a''))])"
  let ?o5 = "([], ObjectType [([''distinct_hosts''], LiteralType (LBool True)),
                              ([''attribute''], LiteralType (LString ''a'')),
                              ([''value''], LiteralType (LString ''x''))])"
  have k1: "CheckHCLKeys (Val ?o1) constraint_valid = Inr ()"
   and k2: "CheckHCLKeys (Val ?o2) constraint_valid = Inr ()"
   and k3: "CheckHCLKeys (Val ?o3) constraint_valid = Inr ()"
   and k4: "CheckHCLKeys (Val ?o4) constraint_valid = Inr ()"
   and k5: "CheckHCLKeys (Val ?o5) constraint_valid = Inr ()"
    by (simp_all add: constraint_valid_def)
  have d1: "DecodeObject L0 (Val ?o1) = Inr [''distinct_hosts'' \<mapsto> HString ''false'']"
   and d2: "DecodeObject L0 (Val ?o2) = Inr [''distinct_hosts'' \<mapsto> HBool True]"
   and d3: "DecodeObject L0 (Val ?o3) = Inr [''distinct_hosts'' \<mapsto> HInt 5]"
   and d4: "DecodeObject L0 (Val ?o4)
              = Inr [''distinct_hosts'' \<mapsto> HBool True, ''attribute'' \<mapsto> HString ''a'']"
   and d5: "DecodeObject L0 (Val ?o5)
              = Inr [''distinct_hosts'' \<mapsto> HBool True, ''attribute'' \<mapsto> HString ''a'',
                     ''value'' \<mapsto> HString ''x'']"
    by (simp_all add: decodeLiteral_def int64_def)
  have a: "parseConstraint L0 ?o1 = Inr None"
    using C3_distinct_hosts[OF k1 d1, of "HString ''false''"] by simp
  have b: "parseConstraint L0 ?o2
      = Inr (Some \<lparr>LTarget = [], RTarget = [], Operand = ''distinct_hosts''\<rparr>)"
    using C3_distinct_hosts[OF k2 d2, of "HBool True"]
    by (simp add: parseBool_def field_def)
  have c: "\<exists>msg. parseConstraint L0 ?o3 = Inl (Error msg)"
    using C3_distinct_hosts[OF k3 d3, of "HInt 5"] by simp
  have d: "parseConstraint L0 ?o4
      = Inr (Some \<lparr>LTarget = ''a'', RTarget = [], Operand = ''distinct_hosts''\<rparr>)"
    using C3_distinct_hosts[OF k4 d4, of "HBool True"]
    by (simp add: parseBool_def field_def weakString_def)
  have e: "parseConstraint L0 ?o5
      = Inr (Some \<lparr>LTarget = ''a'', RTarget = ''x'', Operand = ''distinct_hosts''\<rparr>)"
    using C3_distinct_hosts[OF k5 d5, of "HBool True"]
    by (simp add: parseBool_def field_def weakString_def)
  from a b c d e show ?thesis by blast
qed

text \<open>
  The claim's "no right-target (any plain value is ignored)" fails: with distinct_hosts
  true and a plain value, the value stays in the right target. And distinct_hosts true does
  not fix the operand when distinct_property is present: that alias is applied afterwards
  and sets the operand and the left target.
\<close>

theorem C3_counterexample:
  "parseConstraint L0
     ([], ObjectType [([''distinct_hosts''], LiteralType (LBool True)),
                      ([''value''], LiteralType (LString ''x''))])
   = Inr (Some \<lparr>LTarget = [], RTarget = ''x'', Operand = ''distinct_hosts''\<rparr>)
   \<and> parseConstraint L0
     ([], ObjectType [([''distinct_hosts''], LiteralType (LBool True)),
                      ([''distinct_property''], LiteralType (LString ''p''))])
   = Inr (Some \<lparr>LTarget = ''p'', RTarget = [], Operand = ''distinct_property''\<rparr>)"
  by (simp add: constraint_eval)

text \<open>
  Claim C4, as the code has it. A constraint entry that provides \<^verbatim>\<open>version = "v"\<close> and none
  of regexp, set_contains, distinct_hosts and distinct_property yields the operand
  \<^verbatim>\<open>version\<close> and the right target \<^verbatim>\<open>v\<close>, whatever plain operator and value it also has
  (the left target is the decoded attribute). A constraint entry, and an affinity entry,
  with no operator and no alias attribute yields the operand \<^verbatim>\<open>=\<close>.
\<close>

theorem C4_version_alias_and_default_operand:
  "(CheckHCLKeys (Val obj) constraint_valid = Inr () \<and> DecodeObject L (Val obj) = Inr m \<and>
    m ''version'' = Some (HString v) \<and> m ''regexp'' = None \<and> m ''set_contains'' = None \<and>
    m ''distinct_hosts'' = None \<and> m ''distinct_property'' = None \<longrightarrow>
      parseConstraint L obj =
        bindE (field m ''attribute'' weakString [])
          (\<lambda>l. Inr (Some \<lparr>LTarget = l, RTarget = v, Operand = ''version''\<rparr>)))
   \<and> (CheckHCLKeys (Val obj) constraint_valid = Inr () \<and> DecodeObject L (Val obj) = Inr m \<and>
      m ''operator'' = None \<and> m ''version'' = None \<and> m ''regexp'' = None \<and>
      m ''set_contains'' = None \<and> m ''distinct_hosts'' = None \<and>
      m ''distinct_property'' = None \<longrightarrow>
        parseConstraint L obj =
          bindE (field m ''attribute'' weakString []) (\<lambda>l.
          bindE (field m ''value'' weakString []) (\<lambda>r.
            Inr (Some \<lparr>LTarget = l, RTarget = r, Operand = ''=''\<rparr>))))
   \<and> (CheckHCLKeys (Val obj) affinity_valid = Inr () \<and> DecodeObject L (Val obj) = Inr m \<and>
      m ''operator'' = None \<and> m ''version'' = None \<and> m ''regexp'' = None \<and>
      m ''set_contains'' = None \<and> m ''set_contains_any'' = None \<and>
      m ''set_contains_all'' = None \<longrightarrow>
        parseAffinity L obj =
          bindE (field m ''attribute'' weakString []) (\<lambda>l.
          bindE (field m ''value'' weakString []) (\<lambda>r.
          bindE (field m ''weight'' (weakInt8 L) 0) (\<lambda>w.
            Inr \<lparr>LTarget = l, RTarget = r, Operand = ''='', Weight = w\<rparr>))))"
  using version_alias[of obj L m v] constraint_default_operand[of obj L m]
    affinity_default_operand[of obj L m]
  by blast

theorem C4_version_alias_and_default_operand_witness:
  "parseConstraint L0
     ([], ObjectType [([''attribute''], LiteralType (LString ''a'')),
                      ([''operator''], LiteralType (LString ''>'')),
                      ([''value''], LiteralType (LString ''y'')),
                      ([''version''], LiteralType (LString ''1.0''))])
     = Inr (Some \<lparr>LTarget = ''a'', RTarget = ''1.0'', Operand = ''version''\<rparr>)
   \<and> parseConstraint L0
        ([], ObjectType [([''attribute''], LiteralType (LString ''a'')),
                         ([''value''], LiteralType (LString ''y''))])
     = Inr (Some \<lparr>LTarget = ''a'', RTarget = ''y'', Operand = ''=''\<rparr>)
   \<and> parseAffinity L0
        ([], ObjectType [([''attribute''], LiteralType (LString ''a'')),
                         ([''value''], LiteralType (LString ''y''))])
     = Inr \<lparr>LTarget = ''a'', RTarget = ''y'', Operand = ''='', Weight = 0\<rparr>"
proof -
  let ?o1 = "([], ObjectType [([''attribute''], LiteralType (LString ''a'')),
                      ([''operator''], LiteralType (LString ''>'')),
                      ([''value''], LiteralType (LString ''y'')),
                      ([''version''], LiteralType (LString ''1.0''))])"
  let ?o2 = "([], ObjectType [([''attribute''], LiteralType (LString ''a'')),
                         ([''value''], LiteralType (LString ''y''))])"
  let ?m1 = "[''attribute'' \<mapsto> HString ''a'', ''operator'' \<mapsto> HString ''>'',
              ''value'' \<mapsto> HString ''y'', ''version'' \<mapsto> HString ''1.0'']"
  let ?m2 = "[''attribute'' \<mapsto> HString ''a'', ''value'' \<mapsto> HString ''y'']"
  have k: "CheckHCLKeys (Val ?o1) constraint_valid = Inr ()"
      "CheckHCLKeys (Val ?o2) constraint_valid = Inr ()"
      "CheckHCLKeys (Val ?o2) affinity_valid = Inr ()"
    by (simp_all add: constraint_valid_def affinity_valid_def)
  have d: "DecodeObject L0 (Val ?o1) = Inr ?m1" "DecodeObject L0 (Val ?o2) = Inr ?m2"
    by (simp_all add: decodeLiteral_def)
  have a: "parseConstraint L0 ?o1
      = Inr (Some \<lparr>LTarget = ''a'', RTarget = ''1.0'', Operand = ''version''\<rparr>)"
    using C4_version_alias_and_default_operand[of ?o1 L0 ?m1 "''1.0''"] k d
    by (simp add: field_def weakString_def)
  have b: "parseConstraint L0 ?o2
      = Inr (Some \<lparr>LTarget = ''a'', RTarget = ''y'', Operand = ''=''\<rparr>)"
    using C4_version_alias_and_default_operand[of ?o2 L0 ?m2] k d
    by (simp add: field_def weakString_def)
  have c: "parseAffinity L0 ?o2
      = Inr \<lparr>LTarget = ''a'', RTarget = ''y'', Operand = ''='', Weight = 0\<rparr>"
    using C4_version_alias_and_default_operand[of ?o2 L0 ?m2] k d
    by (simp add: field_def weakString_def)
  from a b c show ?thesis by blast
qed

text \<open>
  A version attribute does not decide the operand when a later alias is present: regexp
  is applied after version and overrides operand and right target.
\<close>

theorem C4_counterexample:
  "parseConstraint L0
     ([], ObjectType [([''version''], LiteralType (LString ''1.0'')),
                      ([''regexp''], LiteralType (LString ''x''))])
   = Inr (Some \<lparr>LTarget = [], RTarget = ''x'', Operand = ''regexp''\<rparr>)"
  by (simp add: constraint_eval)

section \<open>Evaluating the parsers on concrete trees\<close>

lemmas parse_eval = Parse_def parseJob_def parseJobBlock_def Children_def Elem_def
  decodeJob_def newJob_def job_valid_def fieldPtr_def field_def redecodeBlocks_def blockNodes_def
  decodeLiteral_def int64_def
  parseTasks_def parseTask_def task_valid_def decodeTask_def newTask_def taskGroupOf_def
  newTaskGroup_def parseGroups_def parseGroup_def group_valid_def decodeTaskGroup_def
  parseVault_def decodeVault_def defaultVault_def setVault_def setVaultGroup_def
  weakString_def weakStrings_def weakBool_def weakInt_def weakDuration_def ParseBool_def
  quoted_def fold_simps

section \<open>Labelled singleton blocks\<close>

lemma Elem_labelled: "\<forall>item \<in> set list. Keys item \<noteq> [] \<Longrightarrow> Elem list = []"
  by (induction list) (auto simp: Elem_def)

text \<open>
  Claim C9. A singleton policy block written with a name label keeps that label as a key
  after \<^verbatim>\<open>Filter\<close>, so \<^verbatim>\<open>Elem\<close> drops it. When every block of the kind is labelled, the
  list after \<^verbatim>\<open>Elem\<close> is empty and each of the seven parsers (restart, reschedule,
  ephemeral_disk, update, migrate, periodic, parameterized) reads \<^verbatim>\<open>list.Items[0]\<close>
  out of range: the result is a panic, not an error, and no prefix of a caller changes it.
\<close>

theorem C9_labelled_singleton_panics:
  assumes "\<forall>item \<in> set list. Keys item \<noteq> []"
  shows "Elem list = [] \<and>
     parseRestartPolicy L list = Inl Panic \<and> parseReschedulePolicy L list = Inl Panic \<and>
     parseEphemeralDisk L list = Inl Panic \<and> parseUpdate L list = Inl Panic \<and>
     parseMigrate L list = Inl Panic \<and> parsePeriodic L list = Inl Panic \<and>
     parseParameterizedJob L list = Inl Panic \<and>
     prefixE p (parseUpdate L list) = Inl Panic \<and>
     prefixE p (parseRestartPolicy L list) = Inl Panic \<and>
     prefixE p (parsePeriodic L list) = Inl Panic"
  by (simp add: Elem_labelled[OF assms] parseRestartPolicy_def parseReschedulePolicy_def
      parseEphemeralDisk_def parseUpdate_def parseMigrate_def parsePeriodic_def
      parseParameterizedJob_def)

text \<open>
  The witness: the list that \<^verbatim>\<open>Filter\<close> returns for \<^verbatim>\<open>update "x" {}\<close>, and the whole
  transform on \<^verbatim>\<open>job "j" { update "x" {} }\<close>.
\<close>

theorem C9_labelled_singleton_panics_witness:
  "parseUpdate L0 [([''x''], ObjectType [])] = Inl Panic \<and>
   parseRestartPolicy L0 [([''x''], ObjectType [])] = Inl Panic \<and>
   parsePeriodic L0 [([''x''], ObjectType [])] = Inl Panic \<and>
   Parse L0 [([''job'', ''j''], ObjectType [([''update'', ''x''], ObjectType [])])] = Inl Panic"
proof -
  have h: "\<forall>item \<in> set [([''x''], ObjectType [])]. Keys item \<noteq> []" by simp
  have u: "parseUpdate L0 [([''x''], ObjectType [])] = Inl Panic"
    using C9_labelled_singleton_panics[OF h, of L0] by blast
  have r: "parseRestartPolicy L0 [([''x''], ObjectType [])] = Inl Panic"
    using C9_labelled_singleton_panics[OF h, of L0] by blast
  have p: "parsePeriodic L0 [([''x''], ObjectType [])] = Inl Panic"
    using C9_labelled_singleton_panics[OF h, of L0] by blast
  have j: "Parse L0 [([''job'', ''j''], ObjectType [([''update'', ''x''], ObjectType [])])]
      = Inl Panic"
    by (simp add: parse_eval u cong: bindE_weak_cong)
  from u r p j show ?thesis by blast
qed

text \<open>
  Claim C10. When every vault block of a scope is written with a name label, \<^verbatim>\<open>Elem\<close>
  leaves nothing and \<open>parseVault\<close> returns at once, without error and without decoding:
  the result is the value the caller passed in, which at job, group and task scope is the
  default configuration (env true, change mode restart, no policies).
\<close>

theorem C10_labelled_vault_keeps_defaults:
  assumes "\<forall>item \<in> set list. Keys item \<noteq> []"
  shows "parseVault L result list = Inr result \<and>
     parseVault L defaultVault list =
       Inr \<lparr>Policies = [], Env = Some True, ChangeMode = Some ''restart'', ChangeSignal = None\<rparr>"
  by (simp add: Elem_labelled[OF assms] parseVault_def defaultVault_def)

text \<open>
  The witness: \<^verbatim>\<open>vault "x" { policies = ["a"] }\<close> after \<^verbatim>\<open>Filter\<close>, and the transform on
  a job with that block at job scope and on a job with it at task scope: the task's
  vault holds the defaults and no policy.
\<close>

theorem C10_labelled_vault_keeps_defaults_witness:
  "parseVault L0 defaultVault
     [([''x''], ObjectType [([''policies''], ListType [LiteralType (LString ''a'')])])]
     = Inr \<lparr>Policies = [], Env = Some True, ChangeMode = Some ''restart'', ChangeSignal = None\<rparr>
   \<and> map_sum id (\<lambda>j. map (\<lambda>g. map Task.Vault (Tasks g)) (TaskGroups j))
       (Parse L0 [([''job'', ''j''], ObjectType
          [([''vault'', ''x''], ObjectType [([''policies''], ListType [LiteralType (LString ''a'')])]),
           ([''group'', ''g''], ObjectType
              [([''task'', ''t''], ObjectType [([''driver''], LiteralType (LString ''d''))])])])])
     = Inr [[Some \<lparr>Policies = [], Env = Some True, ChangeMode = Some ''restart'',
                     ChangeSignal = None\<rparr>]]
   \<and> map_sum id (\<lambda>j. map (\<lambda>g. map Task.Vault (Tasks g)) (TaskGroups j))
       (Parse L0 [([''job'', ''j''], ObjectType
          [([''task'', ''t''], ObjectType
             [([''vault'', ''x''], ObjectType
                [([''policies''], ListType [LiteralType (LString ''a'')])])])])])
     = Inr [[Some \<lparr>Policies = [], Env = Some True, ChangeMode = Some ''restart'',
                     ChangeSignal = None\<rparr>]]"
proof -
  let ?l = "[([''x''], ObjectType [([''policies''], ListType [LiteralType (LString ''a'')])])]"
  have h: "\<forall>item \<in> set ?l. Keys item \<noteq> []" by simp
  have v: "parseVault L0 defaultVault ?l
      = Inr \<lparr>Policies = [], Env = Some True, ChangeMode = Some ''restart'', ChangeSignal = None\<rparr>"
    using C10_labelled_vault_keeps_defaults[OF h, of L0] by blast
  have a: "map_sum id (\<lambda>j. map (\<lambda>g. map Task.Vault (Tasks g)) (TaskGroups j))
       (Parse L0 [([''job'', ''j''], ObjectType
          [([''vault'', ''x''], ObjectType [([''policies''], ListType [LiteralType (LString ''a'')])]),
           ([''group'', ''g''], ObjectType
              [([''task'', ''t''], ObjectType [([''driver''], LiteralType (LString ''d''))])])])])
     = Inr [[Some \<lparr>Policies = [], Env = Some True, ChangeMode = Some ''restart'',
                     ChangeSignal = None\<rparr>]]"
    by (simp add: parse_eval cong: bindE_weak_cong)
  have b: "map_sum id (\<lambda>j. map (\<lambda>g. map Task.Vault (Tasks g)) (TaskGroups j))
       (Parse L0 [([''job'', ''j''], ObjectType
          [([''task'', ''t''], ObjectType
             [([''vault'', ''x''], ObjectType
                [([''policies''], ListType [LiteralType (LString ''a'')])])])])])
     = Inr [[Some \<lparr>Policies = [], Env = Some True, ChangeMode = Some ''restart'',
                     ChangeSignal = None\<rparr>]]"
    by (simp add: parse_eval cong: bindE_weak_cong)
  from v a b show ?thesis by blast
qed

section \<open>No parser of a library value panics\<close>

lemma decodeElem_no_panic:
  "decodeElem n \<noteq> Inl Panic" "decodeElems ns \<noteq> Inl Panic"
  by (induction n and ns rule: decodeElem_decodeElems.induct)
     (auto simp: decodeLiteral_def split: literal.splits sum.splits)

lemma decodeInterface_no_panic: "decodeInterface n \<noteq> Inl Panic"
  using decodeElem_no_panic(1)[of n] by (cases n) auto

lemma redecode_no_panic: "redecode L old n \<noteq> Inl Panic"
proof (cases old)
  case (HList vs)
  then show ?thesis
    using decodeElem_no_panic(2)
    by (auto simp: redecode_def split: node.splits sum.splits)
qed (auto simp: redecode_def split: node.splits literal.splits option.splits)

lemma redecodeBlocks_no_panic: "redecodeBlocks old ns \<noteq> Inl Panic"
  by (auto simp: redecodeBlocks_def split: option.splits hval.splits)

lemma decodeMap_no_panic: "decodeMap L n l done m \<noteq> Inl Panic"
proof (induction l arbitrary: "done" m)
  case Nil
  then show ?case by simp
next
  case (Cons item rest)
  show ?case
    using Cons.IH redecodeBlocks_no_panic decodeInterface_no_panic redecode_no_panic
    by (auto split: list.splits sum.splits option.splits)
qed

lemma DecodeObject_no_panic: "DecodeObject L n \<noteq> Inl Panic"
  by (cases n) (simp_all add: decodeMap_no_panic)

lemma weakString_no_panic: "weakString v \<noteq> Inl Panic"
  by (auto simp: weakString_def split: hval.splits)

lemma weakInt_no_panic: "weakInt L v \<noteq> Inl Panic"
  by (auto simp: weakInt_def split: hval.splits option.splits)

lemma bindE_no_panic:
  "x \<noteq> Inl Panic \<Longrightarrow> (\<And>v. f v \<noteq> Inl Panic) \<Longrightarrow> bindE x f \<noteq> Inl Panic"
  by (cases x) auto

lemma decodePort_no_panic: "decodePort L p \<noteq> Inl Panic"
  unfolding decodePort_def
  by (intro bindE_no_panic) (auto simp: weakString_no_panic weakInt_no_panic split: option.splits)

lemma parsePorts_loop_no_panic: "parsePorts_loop L known nw ports \<noteq> Inl Panic"
proof (induction ports arbitrary: known nw)
  case Nil
  then show ?case by simp
next
  case (Cons port rest)
  show ?case
  proof (cases "Keys port")
    case Nil
    then show ?thesis by simp
  next
    case (Cons label ks)
    have "bindE (DecodeObject L (Val port)) (\<lambda>p.
            bindE (decodePort L p) (\<lambda>res0.
              let res = res0\<lparr>Label := label\<rparr>;
                  nw' = (if Value res > 0
                         then nw\<lparr>ReservedPorts := ReservedPorts nw @ [res]\<rparr>
                         else nw\<lparr>DynamicPorts := DynamicPorts nw @ [res]\<rparr>)
              in parsePorts_loop L (insert (ToLower label) known) nw' rest)) \<noteq> Inl Panic"
      by (intro bindE_no_panic DecodeObject_no_panic decodePort_no_panic)
         (simp add: Let_def Cons.IH)
    then show ?thesis using Cons by (simp add: errPortLabel_def)
  qed
qed

lemma CheckHCLKeys_list_no_panic:
  "\<forall>item \<in> set l. Keys item \<noteq> [] \<Longrightarrow> CheckHCLKeys_list l valid \<noteq> Inl Panic"
  by (induction l) (auto split: list.splits)

lemma parsePorts_no_panic:
  "\<forall>item \<in> set networkObj. Keys item \<noteq> [] \<Longrightarrow> parsePorts L networkObj nw \<noteq> Inl Panic"
  unfolding parsePorts_def
  by (intro bindE_no_panic) (simp_all add: CheckHCLKeys_list_no_panic parsePorts_loop_no_panic)

lemma Inl_cases_error: "x = Inl e \<Longrightarrow> x \<noteq> Inl Panic \<Longrightarrow> \<exists>msg. x = Inl (Error msg)"
  by (cases e) auto


section \<open>Ports: the split by value and the label checks\<close>

lemma parsePorts_loop_split:
  "parsePorts_loop L known nw ports = Inr nw' \<Longrightarrow>
     \<exists>ps. map (declaredPort L) ports = map Inr ps
       \<and> ReservedPorts nw' = ReservedPorts nw @ filter (\<lambda>p. Value p > 0) ps
       \<and> DynamicPorts nw' = DynamicPorts nw @ filter (\<lambda>p. \<not> Value p > 0) ps
       \<and> MBits nw' = MBits nw"
proof (induction ports arbitrary: known nw)
  case Nil
  then show ?case by simp
next
  case (Cons port rest)
  from Cons.prems obtain label ks where k: "Keys port = label # ks"
    by (cases "Keys port") auto
  from Cons.prems k obtain p res0 where
    d: "DecodeObject L (Val port) = Inr p" and r: "decodePort L p = Inr res0"
    and valid: "reDynamicPorts label" "ToLower label \<notin> known"
    by (auto simp: bindE_eq_Inr split: if_splits)
  define res where "res = res0\<lparr>Label := label\<rparr>"
  define nw1 where "nw1 = (if Value res > 0
       then nw\<lparr>ReservedPorts := ReservedPorts nw @ [res]\<rparr>
       else nw\<lparr>DynamicPorts := DynamicPorts nw @ [res]\<rparr>)"
  have step: "parsePorts_loop L (insert (ToLower label) known) nw1 rest = Inr nw'"
    using Cons.prems k d r valid by (auto simp: res_def nw1_def Let_def split: if_splits)
  from Cons.IH[OF step] obtain ps where ps: "map (declaredPort L) rest = map Inr ps"
    "ReservedPorts nw' = ReservedPorts nw1 @ filter (\<lambda>p. Value p > 0) ps"
    "DynamicPorts nw' = DynamicPorts nw1 @ filter (\<lambda>p. \<not> Value p > 0) ps"
    "MBits nw' = MBits nw1" by blast
  have dp: "declaredPort L port = Inr res"
    by (simp add: declaredPort_def k d r res_def)
  show ?case
    by (rule exI[of _ "res # ps"]) (simp add: dp ps nw1_def)
qed

lemma declaredPort_value:
  assumes "declaredPort L port = Inr res" and "DecodeObject L (Val port) = Inr p"
  shows "case matchKey p (PortValueKey L) of
           None \<Rightarrow> Value res = 0
         | Some v \<Rightarrow> weakInt L v = Inr (Value res)"
  using assms
  by (auto simp: declaredPort_def decodePort_def bindE_eq_Inr split: list.splits option.splits)


lemma toLowerChar_upper:
  "c \<in> set ''ABCDEFGHIJKLMNOPQRSTUVWXYZ'' \<Longrightarrow>
   toLowerChar c \<in> set ''abcdefghijklmnopqrstuvwxyz''"
  by (auto simp: toLowerChar_ascii)

lemma toLowerChar_not_upper:
  "c \<notin> set ''ABCDEFGHIJKLMNOPQRSTUVWXYZ'' \<Longrightarrow> toLowerChar c = c"
  by (simp add: toLowerChar_def)

lemma list_all_ToLower:
  assumes "\<And>c. (toLowerChar c \<in> S) = (c \<in> S)"
  shows "list_all (\<lambda>c. c \<in> S) (map toLowerChar l) = list_all (\<lambda>c. c \<in> S) l"
  by (induction l) (simp_all add: assms)


lemma label_chars_closed:
  "list_all (\<lambda>c. c \<in> set ''abcdefghijklmnopqrstuvwxyzABCDEFGHIJKLMNOPQRSTUVWXYZ0123456789_'')
     ''abcdefghijklmnopqrstuvwxyz''"
  "list_all (\<lambda>c. c \<in> set ''abcdefghijklmnopqrstuvwxyzABCDEFGHIJKLMNOPQRSTUVWXYZ0123456789_'')
     ''ABCDEFGHIJKLMNOPQRSTUVWXYZ''"
  by code_simp+

lemma toLowerChar_label_char:
  "(toLowerChar c \<in> set ''abcdefghijklmnopqrstuvwxyzABCDEFGHIJKLMNOPQRSTUVWXYZ0123456789_'')
   = (c \<in> set ''abcdefghijklmnopqrstuvwxyzABCDEFGHIJKLMNOPQRSTUVWXYZ0123456789_'')"
proof (cases "c \<in> set ''ABCDEFGHIJKLMNOPQRSTUVWXYZ''")
  case True
  from toLowerChar_upper[OF True] label_chars_closed(1)
  have "toLowerChar c \<in> set ''abcdefghijklmnopqrstuvwxyzABCDEFGHIJKLMNOPQRSTUVWXYZ0123456789_''"
    unfolding list_all_iff by blast
  moreover from True label_chars_closed(2)
  have "c \<in> set ''abcdefghijklmnopqrstuvwxyzABCDEFGHIJKLMNOPQRSTUVWXYZ0123456789_''"
    unfolding list_all_iff by blast
  ultimately show ?thesis by blast
next
  case False
  from toLowerChar_not_upper[OF False] show ?thesis by (simp only:)
qed

lemma reDynamicPorts_ToLower: "reDynamicPorts (ToLower label) = reDynamicPorts label"
  unfolding reDynamicPorts_def ToLower_def
  by (simp only: list_all_ToLower[OF toLowerChar_label_char] map_is_Nil_conv)

lemma reDynamicPorts_fold:
  "ToLower a = ToLower b \<Longrightarrow> reDynamicPorts a = reDynamicPorts b"
  by (metis reDynamicPorts_ToLower)

lemma parsePorts_loop_Cons_Inr:
  assumes "parsePorts_loop L known nw (p # rest) = Inr nw'"
  shows "\<exists>lab kk nw1. Keys p = lab # kk \<and> reDynamicPorts lab \<and> ToLower lab \<notin> known \<and>
           parsePorts_loop L (insert (ToLower lab) known) nw1 rest = Inr nw'"
proof (cases "Keys p")
  case Nil
  then show ?thesis using assms by simp
next
  case (Cons lab kk)
  with assms have v: "reDynamicPorts lab" "ToLower lab \<notin> known"
    by (auto split: if_splits)
  with assms Cons obtain nw1 where
    "parsePorts_loop L (insert (ToLower lab) known) nw1 rest = Inr nw'"
    by (auto simp: bindE_eq_Inr Let_def split: if_splits)
  with Cons v show ?thesis by blast
qed

lemma parsePorts_loop_bad_label:
  "port \<in> set ports \<Longrightarrow> Keys port = label # ks \<Longrightarrow> \<not> reDynamicPorts label \<Longrightarrow>
   \<exists>e. parsePorts_loop L known nw ports = Inl e"
proof (induction ports arbitrary: known nw)
  case Nil
  then show ?case by simp
next
  case (Cons p rest)
  show ?case
  proof (cases "p = port")
    case True
    then show ?thesis using Cons.prems by simp
  next
    case False
    then have "port \<in> set rest" using Cons.prems by simp
    from Cons.IH[OF this Cons.prems(2,3)]
    have ih: "\<And>known nw. \<exists>e. parsePorts_loop L known nw rest = Inl e" by blast
    show ?thesis
    proof (cases "parsePorts_loop L known nw (p # rest)")
      case (Inl e)
      then show ?thesis by blast
    next
      case (Inr nw')
      from parsePorts_loop_Cons_Inr[OF Inr] obtain lab nw1 where
        "parsePorts_loop L (insert (ToLower lab) known) nw1 rest = Inr nw'" by blast
      with ih show ?thesis by (metis sum.distinct(1))
    qed
  qed
qed

lemma parsePorts_loop_known:
  "port \<in> set ports \<Longrightarrow> Keys port = label # ks \<Longrightarrow> ToLower label \<in> known \<Longrightarrow>
   \<exists>e. parsePorts_loop L known nw ports = Inl e"
proof (induction ports arbitrary: known nw)
  case Nil
  then show ?case by simp
next
  case (Cons p rest)
  show ?case
  proof (cases "p = port")
    case True
    then show ?thesis using Cons.prems by simp
  next
    case False
    then have "port \<in> set rest" using Cons.prems by simp
    from Cons.IH[OF this Cons.prems(2)]
    have ih: "\<And>known' nw. ToLower label \<in> known' \<Longrightarrow> \<exists>e. parsePorts_loop L known' nw rest = Inl e"
      by blast
    show ?thesis
    proof (cases "parsePorts_loop L known nw (p # rest)")
      case (Inl e)
      then show ?thesis by blast
    next
      case (Inr nw')
      from parsePorts_loop_Cons_Inr[OF Inr] obtain lab nw1 where
        "parsePorts_loop L (insert (ToLower lab) known) nw1 rest = Inr nw'" by blast
      moreover have "ToLower label \<in> insert (ToLower lab) known" using Cons.prems(3) by simp
      ultimately show ?thesis using ih by (metis sum.distinct(1))
    qed
  qed
qed

lemma lowerLabels_Nil [simp]: "lowerLabels [] = {}"
  by (simp add: lowerLabels_def)

lemma lowerLabels_Cons:
  "Keys x = lab # kk \<Longrightarrow> lowerLabels (x # xs) = insert (ToLower lab) (lowerLabels xs)"
  by (cases x) (auto simp: lowerLabels_def)

lemma lowerLabels_mem:
  "(lab # kk, v) \<in> set xs \<Longrightarrow> ToLower lab \<in> lowerLabels xs"
  by (auto simp: lowerLabels_def)

lemma parsePorts_loop_append:
  "parsePorts_loop L known nw (xs @ ys) =
     bindE (parsePorts_loop L known nw xs)
       (\<lambda>nw1. parsePorts_loop L (known \<union> lowerLabels xs) nw1 ys)"
proof (induction xs arbitrary: known nw)
  case Nil
  then show ?case by simp
next
  case (Cons x xs)
  show ?case
  proof (cases "Keys x")
    case Nil
    then show ?thesis by simp
  next
    case (Cons lab kk)
    have u: "insert (ToLower lab) (known \<union> lowerLabels xs) = known \<union> lowerLabels (x # xs)"
      by (simp add: lowerLabels_Cons[OF Cons])
    show ?thesis
      using Cons by (simp add: Cons.IH u Let_def)
  qed
qed

lemma parsePorts_loop_labels_valid:
  assumes "parsePorts_loop L known nw ports = Inr nw'" and "(lab # kk, v) \<in> set ports"
  shows "reDynamicPorts lab"
proof (rule ccontr)
  assume "\<not> reDynamicPorts lab"
  from parsePorts_loop_bad_label[OF assms(2) _ this, of kk L known nw] assms(1)
  show False by simp
qed

lemma parsePorts_loop_collision_error:
  assumes "parsePorts_loop L {} nw (pre @ (l1 # ks1, v1) # mid) = Inr nw1"
      and "EqualFold l1 l2"
  shows "parsePorts_loop L {} nw (pre @ (l1 # ks1, v1) # mid @ (l2 # ks2, v2) # post)
           = Inl (Error (''found a port label collision: '' @ l2))"
proof -
  have "reDynamicPorts l1"
    by (rule parsePorts_loop_labels_valid[OF assms(1), of l1 ks1 v1]) simp
  with assms(2) have v: "reDynamicPorts l2"
    using reDynamicPorts_fold[of l1 l2] by (simp add: EqualFold_def)
  have "ToLower l1 \<in> lowerLabels (pre @ (l1 # ks1, v1) # mid)"
    by (rule lowerLabels_mem[of l1 ks1 v1]) simp
  with assms(2) have k: "ToLower l2 \<in> lowerLabels (pre @ (l1 # ks1, v1) # mid)"
    by (simp add: EqualFold_def)
  have "parsePorts_loop L {} nw ((pre @ (l1 # ks1, v1) # mid) @ (l2 # ks2, v2) # post)
      = bindE (parsePorts_loop L {} nw (pre @ (l1 # ks1, v1) # mid))
          (\<lambda>nw1. parsePorts_loop L ({} \<union> lowerLabels (pre @ (l1 # ks1, v1) # mid)) nw1
                   ((l2 # ks2, v2) # post))"
    by (rule parsePorts_loop_append)
  also have "\<dots> = parsePorts_loop L (lowerLabels (pre @ (l1 # ks1, v1) # mid)) nw1
                   ((l2 # ks2, v2) # post)"
    by (simp only: assms(1) bindE_Inr Un_empty_left)
  also have "\<dots> = Inl (Error (''found a port label collision: '' @ l2))"
    using v k by simp
  finally show ?thesis by simp
qed

lemma parsePorts_loop_collision_fails:
  assumes "EqualFold l1 l2"
  shows "\<exists>e. parsePorts_loop L known nw (pre @ (l1 # ks1, v1) # mid @ (l2 # ks2, v2) # post) = Inl e"
proof (cases "parsePorts_loop L known nw (pre @ (l1 # ks1, v1) # mid @ (l2 # ks2, v2) # post)")
  case (Inl e)
  then show ?thesis by blast
next
  case (Inr nw')
  then obtain nw1 where
    "parsePorts_loop L (known \<union> lowerLabels pre) nw1 ((l1 # ks1, v1) # mid @ (l2 # ks2, v2) # post)
       = Inr nw'"
    by (auto simp: parsePorts_loop_append bindE_eq_Inr)
  from parsePorts_loop_Cons_Inr[OF this] obtain nw2 where
    s: "parsePorts_loop L (insert (ToLower l1) (known \<union> lowerLabels pre)) nw2
          (mid @ (l2 # ks2, v2) # post) = Inr nw'"
    by auto
  have "ToLower l2 \<in> insert (ToLower l1) (known \<union> lowerLabels pre)"
    using assms by (simp add: EqualFold_def)
  from parsePorts_loop_known[OF _ _ this, of "(l2 # ks2, v2)" "mid @ (l2 # ks2, v2) # post" ks2 L nw2]
  show ?thesis using s by simp
qed


text \<open>
  Claim C5. When \<open>parsePorts\<close> accepts a network block, the port blocks of that block decode,
  in order, to ports \<open>ps\<close> (label from the block, value from its value attribute: 0 when
  the block has none), and the ports appended to the reserved list are exactly those with a
  positive value, in order, the ports appended to the dynamic list exactly the others:
  every declared port is in exactly one of the two.
\<close>

theorem C5_ports_split:
  assumes "parsePorts L networkObj nw = Inr nw'"
  shows "\<exists>ps. map (declaredPort L) (Filter networkObj ''port'') = map Inr ps
     \<and> ReservedPorts nw' = ReservedPorts nw @ filter (\<lambda>p. Value p > 0) ps
     \<and> DynamicPorts nw' = DynamicPorts nw @ filter (\<lambda>p. \<not> Value p > 0) ps
     \<and> (\<forall>p \<in> set ps. (p \<in> set (filter (\<lambda>p. Value p > 0) ps))
                       \<noteq> (p \<in> set (filter (\<lambda>p. \<not> Value p > 0) ps)))
     \<and> length (filter (\<lambda>p. Value p > 0) ps) + length (filter (\<lambda>p. \<not> Value p > 0) ps)
         = length ps
     \<and> (\<forall>port \<in> set (Filter networkObj ''port''). \<forall>p res.
           DecodeObject L (Val port) = Inr p \<longrightarrow> declaredPort L port = Inr res \<longrightarrow>
             (case matchKey p (PortValueKey L) of
                None \<Rightarrow> Value res = 0
              | Some v \<Rightarrow> weakInt L v = Inr (Value res)))"
proof -
  from assms have "parsePorts_loop L {} nw (Filter networkObj ''port'') = Inr nw'"
    by (auto simp: parsePorts_def bindE_eq_Inr)
  from parsePorts_loop_split[OF this] obtain ps where
    ps: "map (declaredPort L) (Filter networkObj ''port'') = map Inr ps"
        "ReservedPorts nw' = ReservedPorts nw @ filter (\<lambda>p. Value p > 0) ps"
        "DynamicPorts nw' = DynamicPorts nw @ filter (\<lambda>p. \<not> Value p > 0) ps"
    by blast
  have l: "length (filter (\<lambda>p. Value p > 0) ps) + length (filter (\<lambda>p. \<not> Value p > 0) ps)
         = length ps"
    by (rule sum_length_filter_compl)
  have x: "\<forall>p \<in> set ps. (p \<in> set (filter (\<lambda>p. Value p > 0) ps))
                       \<noteq> (p \<in> set (filter (\<lambda>p. \<not> Value p > 0) ps))"
    by auto
  have v: "\<forall>port \<in> set (Filter networkObj ''port''). \<forall>p res.
           DecodeObject L (Val port) = Inr p \<longrightarrow> declaredPort L port = Inr res \<longrightarrow>
             (case matchKey p (PortValueKey L) of
                None \<Rightarrow> Value res = 0
              | Some v \<Rightarrow> weakInt L v = Inr (Value res))"
    using declaredPort_value by blast
  from ps l x v show ?thesis by blast
qed

theorem C5_ports_split_witness:
  "parsePorts L0
     [([''mbits''], LiteralType (LNumber 10)),
      ([''port'', ''http''], ObjectType [([''static''], LiteralType (LNumber 8080))]),
      ([''port'', ''dyn''], ObjectType []),
      ([''port'', ''zero''], ObjectType [([''static''], LiteralType (LNumber 0))])]
     \<lparr>MBits = Some 10, ReservedPorts = [], DynamicPorts = []\<rparr>
   = Inr \<lparr>MBits = Some 10, ReservedPorts = [\<lparr>Label = ''http'', Value = 8080\<rparr>],
          DynamicPorts = [\<lparr>Label = ''dyn'', Value = 0\<rparr>, \<lparr>Label = ''zero'', Value = 0\<rparr>]\<rparr>
   \<and> (\<exists>ps. [\<lparr>Label = ''http'', Value = 8080\<rparr>] = filter (\<lambda>p. Value p > 0) ps
          \<and> [\<lparr>Label = ''dyn'', Value = 0\<rparr>, \<lparr>Label = ''zero'', Value = 0\<rparr>]
              = filter (\<lambda>p. \<not> Value p > 0) ps
          \<and> length ps = 3)"
proof -
  let ?net = "[([''mbits''], LiteralType (LNumber 10)),
      ([''port'', ''http''], ObjectType [([''static''], LiteralType (LNumber 8080))]),
      ([''port'', ''dyn''], ObjectType []),
      ([''port'', ''zero''], ObjectType [([''static''], LiteralType (LNumber 0))])]"
  let ?nw = "\<lparr>MBits = Some 10, ReservedPorts = [], DynamicPorts = []\<rparr>"
  let ?res = "\<lparr>MBits = Some 10, ReservedPorts = [\<lparr>Label = ''http'', Value = 8080\<rparr>],
          DynamicPorts = [\<lparr>Label = ''dyn'', Value = 0\<rparr>, \<lparr>Label = ''zero'', Value = 0\<rparr>]\<rparr>"
  have h: "parsePorts L0 ?net ?nw = Inr ?res"
    by code_simp
  from C5_ports_split[OF h] obtain ps where
    "ReservedPorts ?res = ReservedPorts ?nw @ filter (\<lambda>p. Value p > 0) ps"
    "DynamicPorts ?res = DynamicPorts ?nw @ filter (\<lambda>p. \<not> Value p > 0) ps"
    "length (filter (\<lambda>p. Value p > 0) ps) + length (filter (\<lambda>p. \<not> Value p > 0) ps)
       = length ps"
    by blast
  then have "[\<lparr>Label = ''http'', Value = 8080\<rparr>] = filter (\<lambda>p. Value p > 0) ps
     \<and> [\<lparr>Label = ''dyn'', Value = 0\<rparr>, \<lparr>Label = ''zero'', Value = 0\<rparr>]
              = filter (\<lambda>p. \<not> Value p > 0) ps
     \<and> length ps = 3"
    by (simp del: filter.simps) (metis length_Cons list.size(3) numeral_3_eq_3 One_nat_def
        add_Suc_right add_Suc Nat.add_0_right)
  with h show ?thesis by blast
qed

text \<open>
  Claim C6. In a network block whose items all have a key (as the tokenizer builds them), a
  port whose label does not match \<^verbatim>\<open>^[a-zA-Z0-9_]+$\<close> makes \<open>parsePorts\<close> return an error,
  and so do two ports whose labels are equal up to case. The first failure met is the one
  returned: when the keys of the block are accepted and the ports before the second of
  the two are, the error is the label collision naming the second label.
\<close>

theorem C6_port_labels:
  assumes "\<forall>item \<in> set networkObj. Keys item \<noteq> []"
  shows "(port \<in> set (Filter networkObj ''port'') \<and> Keys port = label # ks \<and>
          \<not> reDynamicPorts label \<longrightarrow>
            (\<exists>msg. parsePorts L networkObj nw = Inl (Error msg)))
       \<and> (Filter networkObj ''port'' = pre @ (l1 # ks1, v1) # mid @ (l2 # ks2, v2) # post \<and>
          EqualFold l1 l2 \<longrightarrow>
            (\<exists>msg. parsePorts L networkObj nw = Inl (Error msg)) \<and>
            (CheckHCLKeys_list networkObj [''mbits'', ''port''] = Inr () \<and>
             (\<exists>nw1. parsePorts_loop L {} nw (pre @ (l1 # ks1, v1) # mid) = Inr nw1) \<longrightarrow>
               parsePorts L networkObj nw =
                 Inl (Error (''found a port label collision: '' @ l2))))"
proof (intro conjI impI)
  assume a: "port \<in> set (Filter networkObj ''port'') \<and> Keys port = label # ks \<and>
          \<not> reDynamicPorts label"
  then obtain e where "parsePorts_loop L {} nw (Filter networkObj ''port'') = Inl e"
    using parsePorts_loop_bad_label[of port "Filter networkObj ''port''" label ks L "{}" nw]
    by blast
  then obtain e' where "parsePorts L networkObj nw = Inl e'"
    by (cases "CheckHCLKeys_list networkObj [''mbits'', ''port'']") (auto simp: parsePorts_def)
  from Inl_cases_error[OF this parsePorts_no_panic[OF assms]]
  show "\<exists>msg. parsePorts L networkObj nw = Inl (Error msg)" .
next
  assume b: "Filter networkObj ''port'' = pre @ (l1 # ks1, v1) # mid @ (l2 # ks2, v2) # post \<and>
          EqualFold l1 l2"
  then obtain e where "parsePorts_loop L {} nw (Filter networkObj ''port'') = Inl e"
    using parsePorts_loop_collision_fails[of l1 l2 L "{}" nw pre ks1 v1 mid ks2 v2 post]
    by auto
  then obtain e' where "parsePorts L networkObj nw = Inl e'"
    by (cases "CheckHCLKeys_list networkObj [''mbits'', ''port'']") (auto simp: parsePorts_def)
  from Inl_cases_error[OF this parsePorts_no_panic[OF assms]]
  show "\<exists>msg. parsePorts L networkObj nw = Inl (Error msg)" .
  assume c: "CheckHCLKeys_list networkObj [''mbits'', ''port''] = Inr () \<and>
             (\<exists>nw1. parsePorts_loop L {} nw (pre @ (l1 # ks1, v1) # mid) = Inr nw1)"
  then obtain nw1 where "parsePorts_loop L {} nw (pre @ (l1 # ks1, v1) # mid) = Inr nw1"
    by blast
  from parsePorts_loop_collision_error[OF this, of l2 ks2 v2 post] b c
  show "parsePorts L networkObj nw = Inl (Error (''found a port label collision: '' @ l2))"
    by (simp add: parsePorts_def)
qed


theorem C6_port_labels_witness:
  "(\<exists>msg. parsePorts L0 [([''port'', ''a-b''], ObjectType [])]
            \<lparr>MBits = None, ReservedPorts = [], DynamicPorts = []\<rparr> = Inl (Error msg))
   \<and> parsePorts L0 [([''port'', ''Web''], ObjectType []), ([''port'', ''web''], ObjectType [])]
        \<lparr>MBits = None, ReservedPorts = [], DynamicPorts = []\<rparr>
      = Inl (Error ''found a port label collision: web'')"
proof -
  let ?nw = "\<lparr>MBits = None, ReservedPorts = [], DynamicPorts = []\<rparr>"
  let ?n1 = "[([''port'', ''a-b''], ObjectType [])]"
  let ?n2 = "[([''port'', ''Web''], ObjectType []), ([''port'', ''web''], ObjectType [])]"
  have k1: "\<forall>item \<in> set ?n1. Keys item \<noteq> []" and k2: "\<forall>item \<in> set ?n2. Keys item \<noteq> []"
    by simp_all
  have f1: "([''a-b''], ObjectType []) \<in> set (Filter ?n1 ''port'')"
    by (simp add: fold_simps)
  have b1: "\<not> reDynamicPorts ''a-b''"
    by code_simp
  have a: "\<exists>msg. parsePorts L0 ?n1 ?nw = Inl (Error msg)"
    using C6_port_labels[OF k1, where port = "([''a-b''], ObjectType [])" and label = "''a-b''"
        and ks = "[]" and L = L0 and nw = ?nw] f1 b1
    by simp
  have f2: "Filter ?n2 ''port'' = [] @ ([''Web''], ObjectType []) # [] @ ([''web''], ObjectType []) # []"
    by (simp add: fold_simps)
  have e2: "EqualFold ''Web'' ''web''"
    by (simp add: fold_simps)
  have c2: "CheckHCLKeys_list ?n2 [''mbits'', ''port''] = Inr ()"
    by simp
  have "parsePorts_loop L0 {} ?nw ([] @ ([''Web''], ObjectType []) # [])
      = Inr \<lparr>MBits = None, ReservedPorts = [], DynamicPorts = [\<lparr>Label = ''Web'', Value = 0\<rparr>]\<rparr>"
    by code_simp
  then have p2: "\<exists>nw1. parsePorts_loop L0 {} ?nw ([] @ ([''Web''], ObjectType []) # []) = Inr nw1"
    by blast
  have b: "parsePorts L0 ?n2 ?nw = Inl (Error ''found a port label collision: web'')"
    using C6_port_labels[OF k2, where L = L0 and nw = ?nw and pre = "[]" and ?l1.0 = "''Web''"
        and ?ks1.0 = "[]" and ?v1.0 = "ObjectType []" and mid = "[]" and ?l2.0 = "''web''"
        and ?ks2.0 = "[]" and ?v2.0 = "ObjectType []" and post = "[]"] f2 e2 c2 p2
    by simp
  from a b show ?thesis by blast
qed

section \<open>The minimal job\<close>

text \<open>
  Claim C7. The transform of \<^verbatim>\<open>job "jid" { task "tn" { driver = "drv"  config {} } }\<close>, for
  any id, task name and driver: the result is the fresh job named after its id, with one
  task group, synthesized from the task and named after it, that holds exactly the task
  with its driver; update, periodic, reschedule, migrate and parameterized are nil, the
  task has no vault, and every list and map is empty.
\<close>

theorem C7_minimal_job:
  "Parse L [([''job'', jid], ObjectType
      [([''task'', tn], ObjectType
          [([''driver''], LiteralType (LString drv)), ([''config''], ObjectType [])])])]
   = Inr \<lparr>Region = None, Namespace = None, ID = Some jid, Name = Some jid, Type = None,
          Priority = None, AllAtOnce = None, Datacenters = [], Constraints = [],
          Affinities = [],
          TaskGroups =
            [\<lparr>TaskGroup.Name = Some tn, Count = None, Constraints = [], Affinities = [],
              Tasks =
                [\<lparr>Task.Name = tn, Driver = drv, User = [], Config = Map.empty, Constraints = [],
                  Affinities = [], Env = Map.empty, Services = [], Resources = None,
                  Meta = Map.empty, KillTimeout = None, LogConfig = None, Artifacts = [],
                  Vault = None, Templates = [], DispatchPayload = None, Leader = False,
                  ShutdownDelay = 0, KillSignal = []\<rparr>],
              Spreads = [], RestartPolicy = None, ReschedulePolicy = None,
              EphemeralDisk = None, Update = None, Migrate = None, Meta = Map.empty\<rparr>],
          Update = None, Spreads = [], Periodic = None, ParameterizedJob = None,
          Reschedule = None, Migrate = None, Meta = Map.empty, VaultToken = None\<rparr>"
  by (simp add: parse_eval cong: bindE_weak_cong)

section \<open>Tasks: unknown keys\<close>




lemma blockNames_Nil [simp]: "blockNames [] = {}"
  by (simp add: blockNames_def)




lemma bindE_Inr_fst: "bindE x f = Inr y \<Longrightarrow> \<exists>v. x = Inr v"
  by (cases x) auto









section \<open>Task groups: names\<close>

text \<open>
  Claim C2 at the input where the code departs from it. The names that \<open>parseGroups\<close>
  compares are those of the group blocks only: its \<^verbatim>\<open>seen\<close> map starts empty, after the
  groups synthesized from bare tasks are already in the job. The job
  \<^verbatim>\<open>job "j" { task "a" { driver = "d" }  group "a" { task "b" { driver = "d" } } }\<close> is
  accepted, with two task groups named \<^verbatim>\<open>a\<close>.
\<close>

theorem C2_synthesized_group_name_not_checked:
  "map_sum id (\<lambda>j. map (\<lambda>g. (TaskGroup.Name g, map Task.Name (Tasks g))) (TaskGroups j))
     (Parse L0 [([''job'', ''j''], ObjectType
        [([''task'', ''a''], ObjectType [([''driver''], LiteralType (LString ''d''))]),
         ([''group'', ''a''], ObjectType
            [([''task'', ''b''], ObjectType [([''driver''], LiteralType (LString ''d''))])])])])
   = Inr [(Some ''a'', [''a'']), (Some ''a'', [''b''])]"
  by (simp add: parse_eval cong: bindE_weak_cong)

end
